theory Spec2Isabelle
  imports Complex_Main
begin

section \<open>Score follower: the viewer component \<open>ScoreViewerScroll\<close>\<close>

text \<open>
  The development embeds the pure and the stateful parts of the viewer component.
  JavaScript numbers are modelled as real numbers, without rounding; the sentinel \<open>Infinity\<close> that
  \<open>findCurrentMeasure\<close> stores in \<open>measureEndTime\<close> is the value \<open>None\<close> of an option.
  Measure numbers are integers.  \<open>Array.prototype.sort\<close> is stable, and so is
  \<^const>\<open>sort_key\<close>, which models it for the comparators \<open>a.time - b.time\<close> and
  \<open>a.measure - b.measure\<close>.
\<close>

subsection \<open>Anchors and the position interpolator\<close>

text \<open>\<open>interface Anchor { measure: number; time: number }\<close>\<close>

record Anchor =
  measure_num :: int
  time :: real

text \<open>The result \<open>{ measure, progress }\<close> of \<open>findCurrentMeasure\<close>.\<close>

record Located =
  located_measure :: int
  progress :: real

text \<open>
  The loop of \<open>findCurrentMeasure\<close> over \<open>sortedAnchors\<close>.  The loop state is
  \<open>(currentMeasure, measureStartTime, measureEndTime)\<close>; the rest of the list after the
  anchor at index \<open>i\<close> tells whether \<open>i + 1 < sortedAnchors.length\<close>.  The \<open>else\<close> branch
  is the \<open>break\<close>.
\<close>

fun scanAnchors :: "Anchor list \<Rightarrow> real \<Rightarrow> int \<times> real \<times> real option \<Rightarrow> int \<times> real \<times> real option" where
  "scanAnchors [] t st = st"
| "scanAnchors (anchor # rest) t st =
     (if t \<ge> time anchor
      then scanAnchors rest t
             (measure_num anchor, time anchor,
              (case rest of [] \<Rightarrow> None | nxt # _ \<Rightarrow> Some (time nxt)))
      else st)"

definition findCurrentMeasure :: "Anchor list \<Rightarrow> real \<Rightarrow> Located" where
  "findCurrentMeasure anchors t =
     (if length anchors = 0 then \<lparr>located_measure = 1, progress = 0\<rparr>
      else
        let sortedAnchors = sort_key time anchors;
            (currentMeasure, measureStartTime, measureEndTime) =
               scanAnchors sortedAnchors t (1, 0, None)
        in \<lparr>located_measure = currentMeasure,
            progress =
              (case measureEndTime of
                 None \<Rightarrow> 0
               | Some e \<Rightarrow>
                   if e > measureStartTime
                   then max 0 (min 1 ((t - measureStartTime) / (e - measureStartTime)))
                   else 0)\<rparr>)"

text \<open>
  The reference definition of the interpolator, following the specification's words:
  sort by time; the active anchor is the last one whose time is at most the query time;
  the segment ends at the next anchor's time, or is unbounded at the last anchor;
  progress is the clamped quotient, and \<open>0\<close> for an unbounded or zero-length segment;
  the empty anchor list gives \<open>(1, 0)\<close>.  Where no anchor is at or before the query time
  the specification's text names no active anchor, so the reference gives \<open>None\<close>.
\<close>

definition clamp01 :: "real \<Rightarrow> real" where
  "clamp01 x = max 0 (min 1 x)"

definition locate :: "Anchor list \<Rightarrow> real \<Rightarrow> Located option" where
  "locate anchors t =
     (if anchors = [] then Some \<lparr>located_measure = 1, progress = 0\<rparr>
      else
        let sorted_by_time = sort_key time anchors;
            upto = filter (\<lambda>a. time a \<le> t) sorted_by_time
        in if upto = [] then None
           else
             let active = last upto;
                 segStart = time active
             in Some \<lparr>located_measure = measure_num active,
                      progress =
                        (case drop (length upto) sorted_by_time of
                           [] \<Rightarrow> 0
                         | nxt # _ \<Rightarrow>
                             if time nxt - segStart = 0 then 0
                             else clamp01 ((t - segStart) / (time nxt - segStart)))\<rparr>)"

definition example_anchors :: "Anchor list" where
  "example_anchors =
     [\<lparr>measure_num = 1, time = 0\<rparr>, \<lparr>measure_num = 2, time = 10\<rparr>, \<lparr>measure_num = 4, time = 25\<rparr>]"

subsection \<open>The rendering engine's layout, as the viewer reads it\<close>

text \<open>
  \<open>Number.MAX_VALUE\<close> is the largest finite double; \<open>Number.MIN_VALUE\<close> is the smallest
  positive double (it is not negative).
\<close>

definition MAX_VALUE :: real where
  "MAX_VALUE = (2 ^ 53 - 1) * 2 ^ 971"

definition MIN_VALUE :: real where
  "MIN_VALUE = 1 / 2 ^ 1074"

text \<open>The exceptions the embedded code can raise.\<close>

datatype jserror = TypeError

text \<open>
  \<open>PositionAndShape\<close> of a measure: the absolute position and the border offsets, in
  layout units.
\<close>

record BoundingBox =
  AbsolutePosition_x :: real
  AbsolutePosition_y :: real
  BorderLeft :: real
  BorderRight :: real
  BorderTop :: real
  BorderBottom :: real

text \<open>
  A graphical note carries \<open>vfnote\<close>, an optional array of rendered stave notes; a stave
  note is represented by \<open>attrs ? attrs.id : null\<close>.
\<close>

record GraphicalNote =
  vfnote :: "string option list option"

record GraphicalVoiceEntry =
  gve_notes :: "GraphicalNote list option"

text \<open>
  A staff entry: \<open>PositionAndShape.RelativePosition.x\<close> and the optional
  \<open>graphicalVoiceEntries\<close>.
\<close>

record StaffEntry =
  RelativePosition_x :: real
  graphicalVoiceEntries :: "GraphicalVoiceEntry list option"

record StaffMeasure =
  PositionAndShape :: "BoundingBox option"
  staffEntries :: "StaffEntry list"

text \<open>
  \<open>GraphicSheet.MeasureList\<close>: per measure the list of its staff measures.  The code tests
  both the per-measure list and (in places) the staff measure for being absent, so both
  are options.  \<open>UnitInPixels\<close> is read through \<open>any\<close> and may be absent.
\<close>

record GraphicSheet =
  MeasureList :: "StaffMeasure option list option list"
  UnitInPixels :: "real option"

record Osmd =
  GraphicSheet :: "GraphicSheet option"

text \<open>\<open>(osmd.GraphicSheet as any).UnitInPixels || 10\<close>: an absent or zero value gives 10.\<close>

definition unitInPixels :: "GraphicSheet \<Rightarrow> real" where
  "unitInPixels gs =
     (case UnitInPixels gs of None \<Rightarrow> 10 | Some u \<Rightarrow> if u = 0 then 10 else u)"

subsection \<open>The component's state\<close>

datatype AppMode = PLAYBACK | RECORD

text \<open>
  A rendered element is an address in the element store; the store holds what the viewer
  writes: \<open>style.opacity\<close> and the colour that \<open>applyColor\<close> sets on the element and on
  its paths.
\<close>

type_synonym elem = nat

record ElemStyle =
  opacity :: string
  color :: string

text \<open>
  The relative timestamp of a note is the quotient \<open>relX / measureWidth\<close>; for a measure of
  width zero JavaScript's division gives \<open>Infinity\<close>, \<open>-Infinity\<close> or \<open>NaN\<close>, so the
  timestamp is a number that may be non-finite.
\<close>

datatype jsnum = Finite real | Infinity | NegInfinity | NaN

definition js_div :: "real \<Rightarrow> real \<Rightarrow> jsnum" where
  "js_div x y =
     (if y \<noteq> 0 then Finite (x / y)
      else if x > 0 then Infinity else if x < 0 then NegInfinity else NaN)"

text \<open>\<open>x + d\<close> for a finite \<open>d\<close>, and the comparisons \<open>h < x\<close>, \<open>h <= x\<close>, \<open>h >= x\<close> of a
  finite \<open>h\<close> with \<open>x\<close>; every comparison with \<open>NaN\<close> is false.\<close>

fun js_plus :: "jsnum \<Rightarrow> real \<Rightarrow> jsnum" where
  "js_plus (Finite x) d = Finite (x + d)"
| "js_plus Infinity d = Infinity"
| "js_plus NegInfinity d = NegInfinity"
| "js_plus NaN d = NaN"

fun js_less :: "real \<Rightarrow> jsnum \<Rightarrow> bool" where
  "js_less h (Finite x) = (h < x)"
| "js_less h Infinity = True"
| "js_less h NegInfinity = False"
| "js_less h NaN = False"

fun js_less_eq :: "real \<Rightarrow> jsnum \<Rightarrow> bool" where
  "js_less_eq h (Finite x) = (h \<le> x)"
| "js_less_eq h Infinity = True"
| "js_less_eq h NegInfinity = False"
| "js_less_eq h NaN = False"

fun js_greater_eq :: "real \<Rightarrow> jsnum \<Rightarrow> bool" where
  "js_greater_eq h (Finite x) = (h \<ge> x)"
| "js_greater_eq h Infinity = False"
| "js_greater_eq h NegInfinity = True"
| "js_greater_eq h NaN = False"

record NoteData =
  note_id :: string
  measureIndex :: int
  timestamp :: jsnum
  element :: "elem option"

record CursorStyle =
  style_left :: real
  style_top :: real
  style_height :: real
  style_display :: string
  backgroundColor :: string
  boxShadow :: string

text \<open>
  The scroll container: \<open>clientWidth\<close>, \<open>scrollLeft\<close>, and the target of the last
  \<open>scrollTo({ left, behavior: 'smooth' })\<close>.
\<close>

record ScrollContainer =
  clientWidth :: real
  scrollLeft :: real
  smoothScrollTarget :: "real option"

record DOMRect =
  rect_left :: real
  rect_top :: real

record Audio =
  currentTime :: real

text \<open>
  Props (\<open>anchors\<close>, \<open>mode\<close>, \<open>revealMode\<close>), refs and the element store.  The two
  \<open>Map\<close>s are association lists in insertion order, which is the order of \<open>Map.forEach\<close>.
  \<open>console\<close> collects the messages of \<open>console.error\<close>; \<open>frames\<close> counts the calls of
  \<open>requestAnimationFrame\<close>.
\<close>

record Viewer =
  anchors :: "Anchor list"
  mode :: AppMode
  revealMode :: bool
  osmdRef :: "Osmd option"
  isLoaded :: bool
  containerRef :: "DOMRect option"
  cursorRef :: "CursorStyle option"
  scrollContainerRef :: "ScrollContainer option"
  audioRef :: "Audio option"
  lastMeasureIndexRef :: int
  noteMap :: "(int \<times> NoteData list) list"
  beamsMap :: "(int \<times> elem list) list"
  elements :: "elem \<Rightarrow> ElemStyle"
  console :: "string list"
  frames :: nat

subsection \<open>Click-to-seek\<close>

text \<open>The four running extremes \<open>minY\<close>, \<open>maxY\<close>, \<open>minX\<close>, \<open>maxX\<close> of a measure.\<close>

record Extent =
  minY :: real
  maxY :: real
  minX :: real
  maxX :: real

definition initialExtent :: Extent where
  "initialExtent = \<lparr>minY = MAX_VALUE, maxY = MIN_VALUE, minX = MAX_VALUE, maxX = MIN_VALUE\<rparr>"

text \<open>
  The body of \<open>measureStaves.forEach\<close> in \<open>handleScoreClick\<close>: a staff measure without
  \<open>PositionAndShape\<close> is passed over; reading \<open>PositionAndShape\<close> of an absent staff
  measure raises.
\<close>

definition extendExtent :: "BoundingBox \<Rightarrow> Extent \<Rightarrow> Extent" where
  "extendExtent pos ext =
     (let absY = AbsolutePosition_y pos;
          absX = AbsolutePosition_x pos;
          e1 = (if absY + BorderTop pos < minY ext then ext\<lparr>minY := absY + BorderTop pos\<rparr> else ext);
          e2 = (if absY + BorderBottom pos > maxY e1 then e1\<lparr>maxY := absY + BorderBottom pos\<rparr> else e1);
          e3 = (if absX + BorderLeft pos < minX e2 then e2\<lparr>minX := absX + BorderLeft pos\<rparr> else e2)
      in (if absX + BorderRight pos > maxX e3 then e3\<lparr>maxX := absX + BorderRight pos\<rparr> else e3))"

fun clickExtent :: "StaffMeasure option list \<Rightarrow> Extent \<Rightarrow> jserror + Extent" where
  "clickExtent [] ext = Inr ext"
| "clickExtent (None # rest) ext = Inl TypeError"
| "clickExtent (Some staffMeasure # rest) ext =
     (case PositionAndShape staffMeasure of
        None \<Rightarrow> clickExtent rest ext
      | Some pos \<Rightarrow> clickExtent rest (extendExtent pos ext))"

text \<open>The test \<open>clickX >= boxLeft && clickX <= boxRight && clickY >= boxTop && clickY <= boxBottom\<close>.\<close>

definition insideBox :: "Extent \<Rightarrow> real \<Rightarrow> real \<Rightarrow> real \<Rightarrow> bool" where
  "insideBox ext unit clickX clickY =
     (let boxTop = minY ext * unit;
          boxBottom = maxY ext * unit;
          boxLeft = minX ext * unit;
          boxRight = maxX ext * unit
      in clickX \<ge> boxLeft \<and> clickX \<le> boxRight \<and> clickY \<ge> boxTop \<and> clickY \<le> boxBottom)"

text \<open>
  The loop \<open>for (let i = 0; i < measureList.length; i++)\<close>: an absent measure is the
  \<open>continue\<close>, a hit is the \<open>break\<close>; the result is \<open>clickedMeasureIndex\<close>, \<open>-1\<close> when
  no box holds the point.
\<close>

fun hitTest :: "StaffMeasure option list option list \<Rightarrow> nat \<Rightarrow> real \<Rightarrow> real \<Rightarrow> real \<Rightarrow> jserror + int" where
  "hitTest [] i unit clickX clickY = Inr (- 1)"
| "hitTest (None # rest) i unit clickX clickY = hitTest rest (Suc i) unit clickX clickY"
| "hitTest (Some measureStaves # rest) i unit clickX clickY =
     (case clickExtent measureStaves initialExtent of
        Inl e \<Rightarrow> Inl e
      | Inr ext \<Rightarrow>
          if insideBox ext unit clickX clickY then Inr (int i)
          else hitTest rest (Suc i) unit clickX clickY)"

text \<open>
  \<open>[...anchors].sort((a, b) => a.measure - b.measure).reverse().find(a => a.measure <= measureNumber)\<close>
\<close>

definition targetAnchor :: "Anchor list \<Rightarrow> int \<Rightarrow> Anchor option" where
  "targetAnchor as measureNumber =
     List.find (\<lambda>a. measure_num a \<le> measureNumber) (rev (sort_key measure_num as))"

definition handleScoreClick :: "Viewer \<Rightarrow> real \<Rightarrow> real \<Rightarrow> jserror + Viewer" where
  "handleScoreClick v clientX clientY =
     (case osmdRef v of
        None \<Rightarrow> Inr v
      | Some osmd \<Rightarrow>
     (case GraphicSheet osmd of
        None \<Rightarrow> Inr v
      | Some gs \<Rightarrow>
     (case containerRef v of
        None \<Rightarrow> Inr v
      | Some rect \<Rightarrow>
          let clickX = clientX - rect_left rect;
              clickY = clientY - rect_top rect
          in (case hitTest (MeasureList gs) 0 (unitInPixels gs) clickX clickY of
                Inl e \<Rightarrow> Inl e
              | Inr clickedMeasureIndex \<Rightarrow>
                  if clickedMeasureIndex \<noteq> - 1 then
                    (let measureNumber = clickedMeasureIndex + 1 in
                     case targetAnchor (anchors v) measureNumber of
                       None \<Rightarrow> Inr v
                     | Some target \<Rightarrow>
                         (case audioRef v of
                            None \<Rightarrow> Inr v
                          | Some audio \<Rightarrow> Inr (v\<lparr>audioRef := Some (audio\<lparr>currentTime := time target\<rparr>)\<rparr>)))
                  else Inr v))))"

text \<open>
  The measure's pixel box holds the point: the test the loop makes at one measure.  An
  absent measure holds no point.
\<close>

definition measureHit :: "StaffMeasure option list option \<Rightarrow> real \<Rightarrow> real \<Rightarrow> real \<Rightarrow> bool" where
  "measureHit m unit clickX clickY =
     (case m of
        None \<Rightarrow> False
      | Some measureStaves \<Rightarrow>
          (case clickExtent measureStaves initialExtent of
             Inl e \<Rightarrow> False
           | Inr ext \<Rightarrow> insideBox ext unit clickX clickY))"

text \<open>No staff measure of the layout is absent: the layouts on which the click handler
  raises no \<open>TypeError\<close>.\<close>

definition noAbsentStaff :: "StaffMeasure option list option list \<Rightarrow> bool" where
  "noAbsentStaff ml =
     list_all (\<lambda>m. case m of None \<Rightarrow> True | Some staves \<Rightarrow> list_all (\<lambda>s. s \<noteq> None) staves) ml"

text \<open>
  An example: three measures of one staff each, ten units wide and four units high, side
  by side from \<open>x = 0\<close>, at ten pixels per unit; the anchors \<open>[(1,0),(3,8)]\<close>.
\<close>

definition example_staff :: "real \<Rightarrow> StaffMeasure" where
  "example_staff x =
     \<lparr>PositionAndShape =
        Some \<lparr>AbsolutePosition_x = x, AbsolutePosition_y = 0, BorderLeft = 0,
              BorderRight = 10, BorderTop = 0, BorderBottom = 4\<rparr>,
      staffEntries = []\<rparr>"

definition example_sheet :: GraphicSheet where
  "example_sheet =
     \<lparr>MeasureList =
        [Some [Some (example_staff 0)], Some [Some (example_staff 10)],
         Some [Some (example_staff 20)]],
      UnitInPixels = Some 10\<rparr>"

definition example_viewer :: Viewer where
  "example_viewer =
     \<lparr>anchors = [\<lparr>measure_num = 1, time = 0\<rparr>, \<lparr>measure_num = 3, time = 8\<rparr>],
      mode = PLAYBACK,
      revealMode = False,
      osmdRef = Some \<lparr>GraphicSheet = Some example_sheet\<rparr>,
      isLoaded = True,
      containerRef = Some \<lparr>rect_left = 0, rect_top = 0\<rparr>,
      cursorRef = None,
      scrollContainerRef = None,
      audioRef = Some \<lparr>currentTime = 0\<rparr>,
      lastMeasureIndexRef = - 1,
      noteMap = [],
      beamsMap = [],
      elements = (\<lambda>e. \<lparr>opacity = [], color = []\<rparr>),
      console = [],
      frames = 0\<rparr>"



subsection \<open>Reveal-mode visibility of whole measures\<close>

text \<open>
  \<open>updateMeasureVisibility\<close> of the viewer with the boolean \<open>revealMode\<close>: the notes of
  the note map, then the beams of the beams map; \<open>style.opacity\<close> is the only thing written.
  \<open>updateMeasureVisibility3\<close> is the same helper in the viewer with the three reveal
  modes, which keeps one content map of all glyphs and reads an element's class list.
\<close>

definition setOpacity :: "elem \<Rightarrow> string \<Rightarrow> (elem \<Rightarrow> ElemStyle) \<Rightarrow> (elem \<Rightarrow> ElemStyle)" where
  "setOpacity e val st = st(e := (st e)\<lparr>opacity := val\<rparr>)"

definition notesOpacity :: "string \<Rightarrow> NoteData list \<Rightarrow> (elem \<Rightarrow> ElemStyle) \<Rightarrow> (elem \<Rightarrow> ElemStyle)" where
  "notesOpacity val ns st =
     fold (\<lambda>n s. case element n of None \<Rightarrow> s | Some e \<Rightarrow> setOpacity e val s) ns st"

definition elemsOpacity :: "string \<Rightarrow> elem list \<Rightarrow> (elem \<Rightarrow> ElemStyle) \<Rightarrow> (elem \<Rightarrow> ElemStyle)" where
  "elemsOpacity val es st = fold (\<lambda>b s. setOpacity b val s) es st"

definition noteMapVisibility :: "int \<Rightarrow> int \<times> NoteData list \<Rightarrow> (elem \<Rightarrow> ElemStyle) \<Rightarrow> (elem \<Rightarrow> ElemStyle)" where
  "noteMapVisibility currentMeasure entry st =
     (case entry of (measureIdx, ns) \<Rightarrow>
        if measureIdx < currentMeasure then notesOpacity ''1'' ns st
        else if measureIdx > currentMeasure then notesOpacity ''0'' ns st
        else st)"

definition beamsMapVisibility :: "int \<Rightarrow> int \<times> elem list \<Rightarrow> (elem \<Rightarrow> ElemStyle) \<Rightarrow> (elem \<Rightarrow> ElemStyle)" where
  "beamsMapVisibility currentMeasure entry st =
     (case entry of (measureIdx, beams) \<Rightarrow>
        if measureIdx < currentMeasure then elemsOpacity ''1'' beams st
        else if measureIdx > currentMeasure then elemsOpacity ''0'' beams st
        else elemsOpacity ''1'' beams st)"

definition updateMeasureVisibility :: "Viewer \<Rightarrow> int \<Rightarrow> Viewer" where
  "updateMeasureVisibility v currentMeasure =
     (if \<not> revealMode v then v
      else v\<lparr>elements :=
              fold (beamsMapVisibility currentMeasure) (beamsMap v)
                (fold (noteMapVisibility currentMeasure) (noteMap v) (elements v))\<rparr>)"

datatype RevealMode = OFF | NOTE | CURTAIN

definition isBeamOrRest :: "(elem \<Rightarrow> string list) \<Rightarrow> elem \<Rightarrow> bool" where
  "isBeamOrRest classList el \<longleftrightarrow> ''vf-beam'' \<in> set (classList el) \<or> ''vf-rest'' \<in> set (classList el)"

definition contentMapVisibility ::
  "(elem \<Rightarrow> string list) \<Rightarrow> int \<Rightarrow> int \<times> elem list \<Rightarrow> (elem \<Rightarrow> ElemStyle) \<Rightarrow> (elem \<Rightarrow> ElemStyle)" where
  "contentMapVisibility classList currentMeasure entry st =
     (case entry of (measureNum, els) \<Rightarrow>
        if measureNum < currentMeasure then elemsOpacity ''1'' els st
        else if measureNum > currentMeasure then elemsOpacity ''0'' els st
        else fold (\<lambda>el s. if isBeamOrRest classList el then setOpacity el ''1'' s else s) els st)"

definition updateMeasureVisibility3 ::
  "RevealMode \<Rightarrow> (elem \<Rightarrow> string list) \<Rightarrow> (int \<times> elem list) list \<Rightarrow> int
     \<Rightarrow> (elem \<Rightarrow> ElemStyle) \<Rightarrow> (elem \<Rightarrow> ElemStyle)" where
  "updateMeasureVisibility3 revealMode3 classList measureContentMap currentMeasure st =
     (if revealMode3 \<noteq> NOTE then st
      else fold (contentMapVisibility classList currentMeasure) measureContentMap st)"

text \<open>
  The glyphs mapped to a measure: the elements of the notes listed under it in the note
  map, and the elements listed under it in a map of elements.
\<close>

definition noteGlyphs :: "(int \<times> NoteData list) list \<Rightarrow> int \<Rightarrow> elem list" where
  "noteGlyphs nm m = concat (map (\<lambda>(k, ns). if k = m then List.map_filter element ns else []) nm)"

definition mappedGlyphs :: "(int \<times> elem list) list \<Rightarrow> int \<Rightarrow> elem list" where
  "mappedGlyphs bm m = concat (map (\<lambda>(k, es). if k = m then es else []) bm)"

definition glyphs :: "Viewer \<Rightarrow> int \<Rightarrow> elem list" where
  "glyphs v m = noteGlyphs (noteMap v) m @ mappedGlyphs (beamsMap v) m"

text \<open>
  For the proofs: the helper's writes as a list of batches, each a list of elements and
  the one opacity written to them.
\<close>

definition applyBatches :: "(elem list \<times> string) list \<Rightarrow> (elem \<Rightarrow> ElemStyle) \<Rightarrow> (elem \<Rightarrow> ElemStyle)" where
  "applyBatches bs st = fold (\<lambda>(es, val) s. elemsOpacity val es s) bs st"

definition noteBatch :: "int \<Rightarrow> int \<times> NoteData list \<Rightarrow> elem list \<times> string" where
  "noteBatch c entry = (case entry of (k, ns) \<Rightarrow>
      if k < c then (List.map_filter element ns, ''1'')
      else if k > c then (List.map_filter element ns, ''0'') else ([], ''1''))"

definition beamBatch :: "int \<Rightarrow> int \<times> elem list \<Rightarrow> elem list \<times> string" where
  "beamBatch c entry = (case entry of (k, es) \<Rightarrow> if k > c then (es, ''0'') else (es, ''1''))"

definition contentBatch :: "(elem \<Rightarrow> string list) \<Rightarrow> int \<Rightarrow> int \<times> elem list \<Rightarrow> elem list \<times> string" where
  "contentBatch cl c entry = (case entry of (k, es) \<Rightarrow>
      if k < c then (es, ''1'') else if k > c then (es, ''0'')
      else (filter (isBeamOrRest cl) es, ''1''))"

text \<open>
  An example for the measures \<open>{1, 2, 3}\<close>: measure \<open>m\<close> has the note element \<open>10 m + 1\<close>
  and the beam element \<open>10 m + 2\<close>; before the update measure 1 is hidden and the
  others are shown.
\<close>

definition example_note :: "int \<Rightarrow> real \<Rightarrow> elem \<Rightarrow> NoteData" where
  "example_note m ts e =
     \<lparr>note_id = ''n'', measureIndex = m, timestamp = Finite ts, element = Some e\<rparr>"

definition example_reveal :: Viewer where
  "example_reveal =
     example_viewer
       \<lparr>revealMode := True,
        noteMap := [(1, [example_note 1 0 11]), (2, [example_note 2 0 21]), (3, [example_note 3 0 31])],
        beamsMap := [(1, [12]), (2, [22]), (3, [32])],
        elements := (\<lambda>e. \<lparr>opacity = (if e < 20 then ''0'' else ''1''), color = []\<rparr>)\<rparr>"

definition example_content :: "(int \<times> elem list) list" where
  "example_content = [(1, [11, 12]), (2, [21, 22]), (3, [31, 32])]"

definition example_classes :: "elem \<Rightarrow> string list" where
  "example_classes e = (if e mod 10 = 2 then [''vf-beam''] else [''vf-stavenote''])"

subsection \<open>The per-frame step\<close>

text \<open>
  \<open>applyColor\<close> sets \<open>fill\<close> and \<open>stroke\<close> of the element and of each of its paths to one
  colour; the store keeps that colour.  It returns \<open>undefined\<close>.
\<close>

definition applyColor :: "elem \<Rightarrow> string \<Rightarrow> (elem \<Rightarrow> ElemStyle) \<Rightarrow> (elem \<Rightarrow> ElemStyle)" where
  "applyColor e c st = st(e := (st e)\<lparr>color := c\<rparr>)"

text \<open>
  The body of \<open>measureStaves.forEach\<close> in \<open>updateCursorPosition\<close>: the extremes as in the
  click handler, and \<open>minNoteX\<close> from the first staff entry.
\<close>

fun cursorExtent :: "StaffMeasure option list \<Rightarrow> Extent \<Rightarrow> real \<Rightarrow> jserror + Extent \<times> real" where
  "cursorExtent [] ext minNoteX = Inr (ext, minNoteX)"
| "cursorExtent (None # rest) ext minNoteX = Inl TypeError"
| "cursorExtent (Some staffMeasure # rest) ext minNoteX =
     (case PositionAndShape staffMeasure of
        None \<Rightarrow> cursorExtent rest ext minNoteX
      | Some pos \<Rightarrow>
          cursorExtent rest (extendExtent pos ext)
            (case staffEntries staffMeasure of
               [] \<Rightarrow> minNoteX
             | firstEntry # _ \<Rightarrow>
                 let noteAbsX = AbsolutePosition_x pos + RelativePosition_x firstEntry
                 in if noteAbsX < minNoteX then noteAbsX else minNoteX))"

definition visualStartX :: "int \<Rightarrow> real \<Rightarrow> Extent \<Rightarrow> real \<Rightarrow> real" where
  "visualStartX measureNo unit ext minNoteX =
     (let paddingPixels = 12;
          paddingUnits = paddingPixels / unit
      in if measureNo = 1 \<and> minNoteX < MAX_VALUE then max (minX ext) (minNoteX - paddingUnits)
         else minX ext)"

definition cursorX :: "real \<Rightarrow> Extent \<Rightarrow> real \<Rightarrow> real \<Rightarrow> real" where
  "cursorX unit ext startX effectiveProgress =
     (let systemX = startX * unit;
          systemWidth = (maxX ext - startX) * unit
      in systemX + systemWidth * effectiveProgress)"

definition moveCursor :: "AppMode \<Rightarrow> real \<Rightarrow> Extent \<Rightarrow> real \<Rightarrow> CursorStyle \<Rightarrow> CursorStyle" where
  "moveCursor md unit ext cx cursor =
     (let systemTop = minY ext * unit;
          systemHeight = (maxY ext - minY ext) * unit
      in cursor\<lparr>style_left := cx, style_top := systemTop, style_height := systemHeight,
                style_display := ''block'',
                backgroundColor :=
                  (if md = RECORD then ''rgba(239, 68, 68, 0.6)'' else ''rgba(16, 185, 129, 0.8)''),
                boxShadow :=
                  (if md = RECORD then ''0 0 10px rgba(239, 68, 68, 0.4)''
                   else ''0 0 8px rgba(16, 185, 129, 0.5)'')\<rparr>)"

definition scrollLogic :: "int \<Rightarrow> int \<Rightarrow> real \<Rightarrow> ScrollContainer \<Rightarrow> ScrollContainer" where
  "scrollLogic currentMeasureIndex lastMeasureIndex cx container =
     (let containerWidth = clientWidth container;
          targetScrollLeft = cx - containerWidth * (2 / 10);
          currentScroll = scrollLeft container;
          diff = \<bar>currentScroll - targetScrollLeft\<bar>;
          isUserControlling = diff > 250;
          c1 = (if \<not> isUserControlling then container\<lparr>scrollLeft := targetScrollLeft\<rparr>
                else container)
      in if currentMeasureIndex \<noteq> lastMeasureIndex \<and> diff > 50
         then c1\<lparr>smoothScrollTarget := Some targetScrollLeft\<rparr> else c1)"

definition highlightProgress :: "Extent \<Rightarrow> real \<Rightarrow> real \<Rightarrow> real" where
  "highlightProgress ext startX effectiveProgress =
     (let fullMeasureWidth = maxX ext - minX ext;
          activeWidth = maxX ext - startX;
          startOffset = startX - minX ext;
          offsetRatio = (if fullMeasureWidth > 0 then startOffset / fullMeasureWidth else 0);
          scaleRatio = (if fullMeasureWidth > 0 then activeWidth / fullMeasureWidth else 1)
      in offsetRatio + effectiveProgress * scaleRatio)"

text \<open>
  The body of \<open>notesInMeasure.forEach\<close> in playback mode: the reveal logic, then the
  colour logic, with \<open>lookahead = 0.04\<close> and \<open>noteEndThreshold = timestamp + 0.01\<close>.
\<close>

definition highlightNote :: "bool \<Rightarrow> real \<Rightarrow> NoteData \<Rightarrow> (elem \<Rightarrow> ElemStyle) \<Rightarrow> (elem \<Rightarrow> ElemStyle)" where
  "highlightNote reveal hp noteData st =
     (case element noteData of
        None \<Rightarrow> st
      | Some el \<Rightarrow>
          let lookahead = 4 / 100;
              noteEndThreshold = js_plus (timestamp noteData) (1 / 100);
              st1 = (if reveal
                     then (if js_less hp (js_plus (timestamp noteData) (- lookahead))
                           then setOpacity el ''0'' st else setOpacity el ''1'' st)
                     else setOpacity el ''1'' st)
          in if js_less_eq hp noteEndThreshold
                \<and> js_greater_eq hp (js_plus (timestamp noteData) (- lookahead))
             then applyColor el ''#10B981'' st1
             else applyColor el ''#000000'' st1)"

text \<open>
  The recording-mode loop.  In the source the statement
  \<open>applyColor(noteData.element, '#000000')\<close> is followed, on the next line, by
  \<open>(noteData.element as HTMLElement).style.opacity = '1'\<close>; a line that begins with a
  parenthesis continues the expression before it, so the two lines are one call
  \<open>applyColor(\<dots>)(\<dots>).style.opacity = '1'\<close>.  \<open>applyColor\<close> runs and returns
  \<open>undefined\<close>, and calling \<open>undefined\<close> raises a \<open>TypeError\<close>: the loop ends at the
  first note that has an element, after colouring it.
\<close>

fun recordReset :: "NoteData list \<Rightarrow> (elem \<Rightarrow> ElemStyle) \<Rightarrow> (elem \<Rightarrow> ElemStyle) \<times> jserror option" where
  "recordReset [] st = (st, None)"
| "recordReset (noteData # rest) st =
     (case element noteData of
        None \<Rightarrow> recordReset rest st
      | Some el \<Rightarrow> (applyColor el ''#000000'' st, Some TypeError))"

text \<open>
  The \<open>try\<close> block of \<open>updateCursorPosition\<close> after the geometry is known
  (\<open>renderFrame\<close>) and as a whole (\<open>positionCursor\<close>).  The result is the state reached and
  the exception raised there, if any.  \<open>measureNo\<close> is the source's \<open>measure\<close>.
  \<open>measureList[currentMeasureIndex]\<close> is \<open>undefined\<close> for a negative index.
\<close>

definition renderFrame ::
  "Viewer \<Rightarrow> CursorStyle \<Rightarrow> GraphicSheet \<Rightarrow> int \<Rightarrow> real \<Rightarrow> Extent \<Rightarrow> real \<Rightarrow> Viewer \<times> jserror option" where
  "renderFrame v cursor gs measureNo effectiveProgress ext minNoteX =
     (let currentMeasureIndex = measureNo - 1;
          unit = unitInPixels gs;
          startX = visualStartX measureNo unit ext minNoteX;
          cx = cursorX unit ext startX effectiveProgress;
          v1 = v\<lparr>cursorRef := Some (moveCursor (mode v) unit ext cx cursor)\<rparr>;
          v2 = (case scrollContainerRef v1 of
                  None \<Rightarrow> v1
                | Some container \<Rightarrow>
                    v1\<lparr>scrollContainerRef :=
                         Some (scrollLogic currentMeasureIndex (lastMeasureIndexRef v1) cx container)\<rparr>);
          v3 = (if revealMode v2 \<and> currentMeasureIndex \<noteq> lastMeasureIndexRef v2
                then updateMeasureVisibility v2 measureNo else v2);
          v4 = v3\<lparr>lastMeasureIndexRef := currentMeasureIndex\<rparr>;
          notesInMeasure = map_of (noteMap v4) measureNo;
          v5 = (case notesInMeasure of
                  None \<Rightarrow> v4
                | Some ns \<Rightarrow>
                    if mode v4 = PLAYBACK
                    then v4\<lparr>elements :=
                            fold (highlightNote (revealMode v4)
                                    (highlightProgress ext startX effectiveProgress))
                              ns (elements v4)\<rparr>
                    else v4)
      in if mode v5 = RECORD
         then (case notesInMeasure of
                 None \<Rightarrow> (v5, None)
               | Some ns \<Rightarrow>
                   (case recordReset ns (elements v5) of
                      (st, err) \<Rightarrow> (v5\<lparr>elements := st\<rparr>, err)))
         else (v5, None))"

definition positionCursor :: "Viewer \<Rightarrow> CursorStyle \<Rightarrow> GraphicSheet \<Rightarrow> Located \<Rightarrow> Viewer \<times> jserror option" where
  "positionCursor v cursor gs loc =
     (let measureNo = located_measure loc;
          effectiveProgress = progress loc;
          currentMeasureIndex = measureNo - 1;
          measureList = MeasureList gs
      in if length measureList = 0 then (v, None)
         else if currentMeasureIndex \<ge> int (length measureList) then (v, None)
         else if currentMeasureIndex < 0 then (v, None)
         else (case measureList ! nat currentMeasureIndex of
                 None \<Rightarrow> (v, None)
               | Some measureStaves \<Rightarrow>
                   if length measureStaves = 0 then (v, None)
                   else (case cursorExtent measureStaves initialExtent MAX_VALUE of
                           Inl e \<Rightarrow> (v, Some e)
                         | Inr (ext, minNoteX) \<Rightarrow>
                             renderFrame v cursor gs measureNo effectiveProgress ext minNoteX)))"

text \<open>
  \<open>updateCursorPosition\<close>: the guards, \<open>findCurrentMeasure\<close>, and the \<open>try\<close> block whose
  \<open>catch\<close> logs with \<open>console.error\<close>.  A result \<open>Inl\<close> would be an exception that leaves
  the function.
\<close>

definition updateCursorPosition :: "Viewer \<Rightarrow> real \<Rightarrow> jserror + Viewer" where
  "updateCursorPosition v audioTime =
     (case osmdRef v of
        None \<Rightarrow> Inr v
      | Some osmd \<Rightarrow>
          if \<not> isLoaded v then Inr v
          else (case cursorRef v of
                  None \<Rightarrow> Inr v
                | Some cursor \<Rightarrow>
                    (case GraphicSheet osmd of
                       None \<Rightarrow> Inr v
                     | Some gs \<Rightarrow>
                         (case positionCursor v cursor gs (findCurrentMeasure (anchors v) audioTime) of
                            (v', None) \<Rightarrow> Inr v'
                          | (v', Some err) \<Rightarrow>
                              Inr (v'\<lparr>console := console v' @ [''Error positioning cursor:'']\<rparr>)))))"

text \<open>
  \<open>animate\<close>: read \<open>audioRef.current?.currentTime ?? 0\<close>, update, and request the next
  frame.  An exception leaving \<open>updateCursorPosition\<close> would end the loop before the
  request.
\<close>

definition animate :: "Viewer \<Rightarrow> jserror + Viewer" where
  "animate v =
     (let audioTime = (case audioRef v of None \<Rightarrow> 0 | Some audio \<Rightarrow> currentTime audio)
      in case updateCursorPosition v audioTime of
           Inl e \<Rightarrow> Inl e
         | Inr v' \<Rightarrow> Inr (v'\<lparr>frames := Suc (frames v')\<rparr>))"

text \<open>The loop over successive frames; between frames the audio element advances its clock
  to the next of the given times.\<close>

fun runFrames :: "real list \<Rightarrow> Viewer \<Rightarrow> jserror + Viewer" where
  "runFrames [] v = Inr v"
| "runFrames (t # ts) v =
     (case animate (v\<lparr>audioRef := map_option (\<lambda>audio. audio\<lparr>currentTime := t\<rparr>) (audioRef v)\<rparr>) of
        Inl e \<Rightarrow> Inl e
      | Inr v' \<Rightarrow> runFrames ts v')"

text \<open>
  Examples: the viewer in recording mode with two notes in measure 1, both green and
  hidden before the frame; and the same viewer on a layout whose only measure has an
  absent staff measure.
\<close>

definition example_cursor :: CursorStyle where
  "example_cursor = \<lparr>style_left = 0, style_top = 0, style_height = 100, style_display = ''none'',
      backgroundColor = ''rgba(16, 185, 129, 0.8)'', boxShadow = ''0 0 8px rgba(16, 185, 129, 0.5)''\<rparr>"

definition example_record :: Viewer where
  "example_record = example_viewer
      \<lparr>mode := RECORD, cursorRef := Some example_cursor,
       noteMap := [(1, [example_note 1 (1/4) 11, example_note 1 (3/4) 12])],
       elements := (\<lambda>e. \<lparr>opacity = ''0'', color = ''#10B981''\<rparr>)\<rparr>"


definition example_absent :: Viewer where
  "example_absent = example_record
      \<lparr>osmdRef := Some \<lparr>GraphicSheet = Some \<lparr>MeasureList = [Some [None]], UnitInPixels = Some 10\<rparr>\<rparr>\<rparr>"

text \<open>The recording-mode loop of the viewer with three reveal modes.\<close>

definition recordReset3 :: "NoteData list \<Rightarrow> (elem \<Rightarrow> ElemStyle) \<Rightarrow> (elem \<Rightarrow> ElemStyle)" where
  "recordReset3 ns st =
     fold (\<lambda>noteData s.
             case element noteData of
               None \<Rightarrow> s
             | Some el \<Rightarrow> setOpacity el ''1'' (applyColor el ''#000000'' s)) ns st"

subsection \<open>The geometry mapper\<close>

text \<open>
  What \<open>calculateNoteMap\<close> reads of the document: \<open>document.getElementById\<close>,
  \<open>element.closest('.vf-stavenote')\<close>, the elements of class \<open>vf-beam\<close> inside the
  container, and the left and right edges of \<open>getBoundingClientRect()\<close>.
\<close>

record Dom =
  getElementById :: "string \<Rightarrow> elem option"
  closestStaveNote :: "elem \<Rightarrow> elem option"
  beamElements :: "elem list"
  boundingLeft :: "elem \<Rightarrow> real"
  boundingRight :: "elem \<Rightarrow> real"

text \<open>The body of \<open>gve.notes.forEach\<close>: the note is pushed when its first stave note has
  a non-empty id whose element (under the id or under \<open>vf-\<close> and the id) exists.\<close>

definition mapNote :: "Dom \<Rightarrow> int \<Rightarrow> jsnum \<Rightarrow> GraphicalNote \<Rightarrow> NoteData list \<Rightarrow> NoteData list" where
  "mapNote doc measureNumber relativeTimestamp note measureNotes =
     (case vfnote note of
        None \<Rightarrow> measureNotes
      | Some [] \<Rightarrow> measureNotes
      | Some (vfStaveNote # _) \<Rightarrow>
          (case vfStaveNote of
             None \<Rightarrow> measureNotes
           | Some vfId \<Rightarrow>
               if vfId = [] then measureNotes
               else
                 (case (case getElementById doc vfId of
                          Some el \<Rightarrow> Some el
                        | None \<Rightarrow> getElementById doc (''vf-'' @ vfId)) of
                    None \<Rightarrow> measureNotes
                  | Some el \<Rightarrow>
                      let group = (case closestStaveNote doc el of Some g \<Rightarrow> g | None \<Rightarrow> el)
                      in measureNotes @
                           [\<lparr>note_id = vfId, measureIndex = measureNumber,
                             timestamp = relativeTimestamp, element = Some group\<rparr>])))"

text \<open>The body of \<open>staffMeasure.staffEntries.forEach\<close>.\<close>

definition mapEntry :: "Dom \<Rightarrow> int \<Rightarrow> real \<Rightarrow> real \<Rightarrow> StaffEntry \<Rightarrow> NoteData list \<Rightarrow> NoteData list" where
  "mapEntry doc measureNumber unit measureWidth entry measureNotes =
     (case graphicalVoiceEntries entry of
        None \<Rightarrow> measureNotes
      | Some gves \<Rightarrow>
          let relX = RelativePosition_x entry * unit;
              relativeTimestamp = js_div relX measureWidth
          in fold (\<lambda>gve acc.
                     case gve_notes gve of
                       None \<Rightarrow> acc
                     | Some ns \<Rightarrow> fold (mapNote doc measureNumber relativeTimestamp) ns acc)
               gves measureNotes)"

text \<open>
  \<open>measureStaves.forEach\<close>: an absent staff measure is passed over; \<open>measurePos.BorderRight\<close>
  of an absent \<open>PositionAndShape\<close> raises.
\<close>

fun mapStaves :: "Dom \<Rightarrow> int \<Rightarrow> real \<Rightarrow> StaffMeasure option list \<Rightarrow> NoteData list \<Rightarrow> jserror + NoteData list" where
  "mapStaves doc measureNumber unit [] measureNotes = Inr measureNotes"
| "mapStaves doc measureNumber unit (None # rest) measureNotes =
     mapStaves doc measureNumber unit rest measureNotes"
| "mapStaves doc measureNumber unit (Some staffMeasure # rest) measureNotes =
     (case PositionAndShape staffMeasure of
        None \<Rightarrow> Inl TypeError
      | Some measurePos \<Rightarrow>
          let measureWidth = (BorderRight measurePos - BorderLeft measurePos) * unit
          in mapStaves doc measureNumber unit rest
               (fold (mapEntry doc measureNumber unit measureWidth)
                  (staffEntries staffMeasure) measureNotes))"

text \<open>\<open>measureList.forEach((measureStaves, measureIndex) => \<dots>)\<close>, building \<open>newNoteMap\<close>; \<open>idx\<close> is the source's \<open>measureIndex\<close>.\<close>

fun mapMeasures ::
  "Dom \<Rightarrow> real \<Rightarrow> StaffMeasure option list option list \<Rightarrow> nat
     \<Rightarrow> (int \<times> NoteData list) list \<Rightarrow> jserror + (int \<times> NoteData list) list" where
  "mapMeasures doc unit [] idx newNoteMap = Inr newNoteMap"
| "mapMeasures doc unit (None # rest) idx newNoteMap =
     mapMeasures doc unit rest (Suc idx) newNoteMap"
| "mapMeasures doc unit (Some measureStaves # rest) idx newNoteMap =
     (let measureNumber = int idx + 1 in
      if length measureStaves = 0 then mapMeasures doc unit rest (Suc idx) newNoteMap
      else
        (case mapStaves doc measureNumber unit measureStaves [] of
           Inl e \<Rightarrow> Inl e
         | Inr measureNotes \<Rightarrow>
             mapMeasures doc unit rest (Suc idx)
               (if length measureNotes > 0 then newNoteMap @ [(measureNumber, measureNotes)]
                else newNoteMap)))"

text \<open>
  The beams: for each beam the loop \<open>for (let m = 1; m <= newNoteMap.size; m++)\<close> looks
  for the first measure whose notes span the beam's left edge, with ten pixels of
  tolerance, and pushes the beam under it.
\<close>

fun beamMeasure :: "Dom \<Rightarrow> (int \<times> NoteData list) list \<Rightarrow> elem \<Rightarrow> int list \<Rightarrow> int option" where
  "beamMeasure doc newNoteMap beamEl [] = None"
| "beamMeasure doc newNoteMap beamEl (m # ms) =
     (case map_of newNoteMap m of
        None \<Rightarrow> beamMeasure doc newNoteMap beamEl ms
      | Some ns \<Rightarrow>
          if length ns > 0 then
            (case (element (hd ns), element (last ns)) of
               (Some firstNote, Some lastNote) \<Rightarrow>
                 if boundingLeft doc beamEl \<ge> boundingLeft doc firstNote - 10
                    \<and> boundingLeft doc beamEl \<le> boundingRight doc lastNote + 10
                 then Some m
                 else beamMeasure doc newNoteMap beamEl ms
             | _ \<Rightarrow> beamMeasure doc newNoteMap beamEl ms)
          else beamMeasure doc newNoteMap beamEl ms)"

fun pushBeam :: "int \<Rightarrow> elem \<Rightarrow> (int \<times> elem list) list \<Rightarrow> (int \<times> elem list) list" where
  "pushBeam m beamEl [] = [(m, [beamEl])]"
| "pushBeam m beamEl ((k, beams) # rest) =
     (if k = m then (k, beams @ [beamEl]) # rest else (k, beams) # pushBeam m beamEl rest)"

definition mapBeam :: "Dom \<Rightarrow> (int \<times> NoteData list) list \<Rightarrow> elem \<Rightarrow> (int \<times> elem list) list \<Rightarrow> (int \<times> elem list) list" where
  "mapBeam doc newNoteMap beamEl newBeamsMap =
     (case beamMeasure doc newNoteMap beamEl [1 .. int (length newNoteMap)] of
        None \<Rightarrow> newBeamsMap
      | Some m \<Rightarrow> pushBeam m beamEl newBeamsMap)"

definition calculateNoteMap :: "Dom \<Rightarrow> Viewer \<Rightarrow> jserror + Viewer" where
  "calculateNoteMap doc v =
     (case osmdRef v of
        None \<Rightarrow> Inr v
      | Some osmd \<Rightarrow>
     (case GraphicSheet osmd of
        None \<Rightarrow> Inr v
      | Some gs \<Rightarrow>
          if containerRef v = None then Inr v
          else
            (case mapMeasures doc (unitInPixels gs) (MeasureList gs) 0 [] of
               Inl e \<Rightarrow> Inl e
             | Inr newNoteMap \<Rightarrow>
                 Inr (v\<lparr>noteMap := newNoteMap,
                        beamsMap := fold (mapBeam doc newNoteMap) (beamElements doc) []\<rparr>))))"

definition example_dom :: Dom where
  "example_dom =
     \<lparr>getElementById = (\<lambda>i. if i = ''a'' then Some 11 else if i = ''b'' then Some 21 else None),
      closestStaveNote = (\<lambda>e. None),
      beamElements = [],
      boundingLeft = (\<lambda>e. 0),
      boundingRight = (\<lambda>e. 0)\<rparr>"

definition example_entry :: "real \<Rightarrow> string \<Rightarrow> StaffEntry" where
  "example_entry x i =
     \<lparr>RelativePosition_x = x,
      graphicalVoiceEntries = Some [\<lparr>gve_notes = Some [\<lparr>vfnote = Some [Some i]\<rparr>]\<rparr>]\<rparr>"

definition example_box :: "real \<Rightarrow> real \<Rightarrow> BoundingBox" where
  "example_box x w =
     \<lparr>AbsolutePosition_x = x, AbsolutePosition_y = 0, BorderLeft = 0,
      BorderRight = w, BorderTop = 0, BorderBottom = 4\<rparr>"

text \<open>A well-formed measure followed by a measure without a bounding shape, and a
  well-formed measure followed by a measure of width zero.\<close>

definition example_no_shape :: Viewer where
  "example_no_shape = example_viewer
     \<lparr>osmdRef := Some \<lparr>GraphicSheet = Some
        \<lparr>MeasureList =
           [Some [Some \<lparr>PositionAndShape = Some (example_box 0 10), staffEntries = [example_entry 5 ''a'']\<rparr>],
            Some [Some \<lparr>PositionAndShape = None, staffEntries = [example_entry 5 ''b'']\<rparr>]],
         UnitInPixels = Some 10\<rparr>\<rparr>\<rparr>"

definition example_zero_width :: Viewer where
  "example_zero_width = example_viewer
     \<lparr>osmdRef := Some \<lparr>GraphicSheet = Some
        \<lparr>MeasureList =
           [Some [Some \<lparr>PositionAndShape = Some (example_box 0 10), staffEntries = [example_entry 5 ''a'']\<rparr>],
            Some [Some \<lparr>PositionAndShape = Some (example_box 10 0), staffEntries = [example_entry 0 ''b'']\<rparr>]],
         UnitInPixels = Some 10\<rparr>\<rparr>\<rparr>"

subsection \<open>Properties of the scan\<close>

lemma scanAnchors_takeWhile:
  "scanAnchors xs t st =
     (if takeWhile (\<lambda>a. time a \<le> t) xs = [] then st
      else (measure_num (last (takeWhile (\<lambda>a. time a \<le> t) xs)),
            time (last (takeWhile (\<lambda>a. time a \<le> t) xs)),
            (case dropWhile (\<lambda>a. time a \<le> t) xs of [] \<Rightarrow> None | nxt # _ \<Rightarrow> Some (time nxt))))"
proof (induction xs arbitrary: st)
  case Nil
  show ?case by simp
next
  case (Cons a xs)
  show ?case
  proof (cases "time a \<le> t")
    case False
    then show ?thesis by simp
  next
    case True
    show ?thesis
    proof (cases xs)
      case Nil
      with True show ?thesis by simp
    next
      case (Cons b ys)
      with True Cons.IH show ?thesis by (simp split: list.splits)
    qed
  qed
qed

lemma takeWhile_time_sorted:
  "sorted (map time xs) \<Longrightarrow> takeWhile (\<lambda>a. time a \<le> t) xs = filter (\<lambda>a. time a \<le> t) xs"
proof (induction xs)
  case Nil
  show ?case by simp
next
  case (Cons a xs)
  show ?case
  proof (cases "time a \<le> t")
    case True
    with Cons show ?thesis by simp
  next
    case False
    with Cons.prems have "\<forall>b\<in>set xs. \<not> time b \<le> t" by auto
    then have "filter (\<lambda>a. time a \<le> t) xs = []" by (simp add: filter_empty_conv)
    with False show ?thesis by simp
  qed
qed

lemma findCurrentMeasure_sorted:
  assumes "ancs \<noteq> []"
  shows "findCurrentMeasure ancs t =
     (let s = sort_key time ancs; upto = filter (\<lambda>a. time a \<le> t) s in
      if upto = [] then \<lparr>located_measure = 1, progress = 0\<rparr>
      else \<lparr>located_measure = measure_num (last upto),
             progress = (case drop (length upto) s of [] \<Rightarrow> 0
                | nxt # _ \<Rightarrow> if time nxt > time (last upto)
                     then max 0 (min 1 ((t - time (last upto)) / (time nxt - time (last upto)))) else 0)\<rparr>)"
proof -
  have s: "sorted (map time (sort_key time ancs))" by simp
  note tw = takeWhile_time_sorted [OF s, of t]
  have dw: "dropWhile (\<lambda>a. time a \<le> t) (sort_key time ancs)
      = drop (length (filter (\<lambda>a. time a \<le> t) (sort_key time ancs))) (sort_key time ancs)"
    using dropWhile_eq_drop [of "\<lambda>a. time a \<le> t" "sort_key time ancs"] tw by simp
  show ?thesis
    using assms
    by (simp add: findCurrentMeasure_def scanAnchors_takeWhile tw dw Let_def split: list.splits)
qed

lemma next_anchor_later:
  assumes "drop (length (filter (\<lambda>a. time a \<le> t) (sort_key time ancs))) (sort_key time ancs) = nxt # rest"
  shows "t < time nxt"
proof -
  have s: "sorted (map time (sort_key time ancs))" by simp
  have "dropWhile (\<lambda>a. time a \<le> t) (sort_key time ancs) = nxt # rest"
    using assms dropWhile_eq_drop [of "\<lambda>a. time a \<le> t" "sort_key time ancs"]
      takeWhile_time_sorted [OF s, of t] by simp
  then have "\<not> time nxt \<le> t" by (simp add: dropWhile_eq_Cons_conv)
  then show ?thesis by simp
qed

lemma active_anchor_before:
  assumes "filter (\<lambda>a. time a \<le> t) xs \<noteq> []"
  shows "time (last (filter (\<lambda>a. time a \<le> t) xs)) \<le> t"
  using last_in_set [OF assms] by simp

lemma findCurrentMeasure_locate:
  assumes "ancs = [] \<or> (\<exists>a\<in>set ancs. time a \<le> t)"
  shows "locate ancs t = Some (findCurrentMeasure ancs t)"
proof (cases "ancs = []")
  case True
  then show ?thesis by (simp add: locate_def findCurrentMeasure_def)
next
  case False
  with assms obtain a where a: "a \<in> set ancs" "time a \<le> t" by blast
  let ?s = "sort_key time ancs"
  let ?u = "filter (\<lambda>a. time a \<le> t) ?s"
  from a have ne: "?u \<noteq> []" by (auto simp: filter_empty_conv)
  have before: "time (last ?u) \<le> t" using active_anchor_before [OF ne] .
  have later: "\<And>nxt rest. drop (length ?u) ?s = nxt # rest \<Longrightarrow> time (last ?u) < time nxt"
    using next_anchor_later [of t ancs] before by fastforce
  show ?thesis
  proof (cases "drop (length ?u) ?s")
    case Nil
    with False ne show ?thesis
      by (simp add: locate_def findCurrentMeasure_sorted Let_def)
  next
    case (Cons nxt rest)
    from later [OF Cons] have "time (last ?u) < time nxt" .
    with False ne Cons show ?thesis
      by (simp add: locate_def findCurrentMeasure_sorted Let_def clamp01_def)
  qed
qed

lemma fcm_before_all:
  assumes "ancs \<noteq> []" "\<forall>a\<in>set ancs. t < time a"
  shows "findCurrentMeasure ancs t = \<lparr>located_measure = 1, progress = 0\<rparr>"
proof -
  have "filter (\<lambda>a. time a \<le> t) (sort_key time ancs) = []"
    using assms(2) by (auto simp: filter_empty_conv)
  with assms(1) show ?thesis by (simp add: findCurrentMeasure_sorted)
qed

lemma last_sorted_max:
  assumes "sorted (map f xs)" "x \<in> set xs"
  shows "f x \<le> f (last xs)"
  using assms
  by (induction xs) (auto)

lemma last_filter_keep:
  "xs \<noteq> [] \<Longrightarrow> P (last xs) \<Longrightarrow> last (filter P xs) = last xs"
  by (induction xs rule: rev_induct) simp_all

lemma fcm_tie:
  assumes a: "a \<in> set ancs" "time a \<le> t"
    and mx: "\<forall>b\<in>set ancs. time b \<le> t \<longrightarrow> time b \<le> time a"
  shows "located_measure (findCurrentMeasure ancs t)
       = measure_num (last (filter (\<lambda>b. time b = time a) ancs))"
proof -
  let ?s = "sort_key time ancs"
  let ?u = "filter (\<lambda>a. time a \<le> t) ?s"
  from a have ne: "?u \<noteq> []" by (auto simp: filter_empty_conv)
  from a have ane: "ancs \<noteq> []" by auto
  have su: "sorted (map time ?u)" by (simp add: filter_sort)
  have au: "a \<in> set ?u" using a by simp
  have "time a \<le> time (last ?u)" using last_sorted_max [OF su au] .
  moreover have "last ?u \<in> set ?u" using ne by (rule last_in_set)
  then have "time (last ?u) \<le> time a" using mx by simp
  ultimately have k: "time (last ?u) = time a" by simp
  have "last ?u = last (filter (\<lambda>b. time b = time a) ?u)"
    using last_filter_keep [of ?u "\<lambda>b. time b = time a"] k ne by (simp del: filter_filter)
  also have "filter (\<lambda>b. time b = time a) ?u = filter (\<lambda>b. time b = time a) ?s"
    using a(2) by (auto simp: filter_filter intro: filter_cong)
  also have "\<dots> = filter (\<lambda>b. time b = time a) ancs" by (rule sort_key_stable)
  finally have "last ?u = last (filter (\<lambda>b. time b = time a) ancs)" .
  with ane ne show ?thesis by (simp add: findCurrentMeasure_sorted Let_def)
qed

lemma fcm_measure_takeWhile:
  assumes "ancs \<noteq> []"
  shows "located_measure (findCurrentMeasure ancs t) =
     (if filter (\<lambda>a. time a \<le> t) (sort_key time ancs) = [] then 1
      else measure_num (last (filter (\<lambda>a. time a \<le> t) (sort_key time ancs))))"
  using assms by (simp add: findCurrentMeasure_sorted Let_def)

lemma fcm_mono:
  assumes srt: "sorted (map measure_num (sort_key time ancs))"
    and pos: "\<forall>a\<in>set ancs. 1 \<le> measure_num a"
    and le: "t1 \<le> t2"
  shows "located_measure (findCurrentMeasure ancs t1) \<le> located_measure (findCurrentMeasure ancs t2)"
proof (cases "ancs = []")
  case True
  then show ?thesis by (simp add: findCurrentMeasure_def)
next
  case False
  let ?s = "sort_key time ancs"
  let ?u1 = "filter (\<lambda>a. time a \<le> t1) ?s"
  let ?u2 = "filter (\<lambda>a. time a \<le> t2) ?s"
  show ?thesis
  proof (cases "?u1 = []")
    case True
    have "1 \<le> located_measure (findCurrentMeasure ancs t2)"
    proof (cases "?u2 = []")
      case True
      with False show ?thesis by (simp add: fcm_measure_takeWhile)
    next
      case ne2: False
      then have "last ?u2 \<in> set ?u2" by (rule last_in_set)
      then have "last ?u2 \<in> set ancs" by simp
      with pos have "1 \<le> measure_num (last ?u2)" by blast
      with False ne2 show ?thesis by (simp add: fcm_measure_takeWhile)
    qed
    with True False show ?thesis by (simp add: fcm_measure_takeWhile)
  next
    case ne1: False
    then have in1: "last ?u1 \<in> set ?u1" by (rule last_in_set)
    then have "time (last ?u1) \<le> t1" by simp
    with le have "time (last ?u1) \<le> t2" by simp
    with in1 have in2: "last ?u1 \<in> set ?u2" by simp
    have ne2: "?u2 \<noteq> []" using in2 by (metis empty_iff empty_set)
    have "sorted (map measure_num ?u2)"
      using srt by (simp add: sorted_map sorted_wrt_filter)
    from last_sorted_max [OF this in2]
    have "measure_num (last ?u1) \<le> measure_num (last ?u2)" .
    with False ne1 ne2 show ?thesis by (simp add: fcm_measure_takeWhile)
  qed
qed

lemma findCurrentMeasure_empty:
  "findCurrentMeasure [] t = \<lparr>located_measure = 1, progress = 0\<rparr>"
  by (simp add: findCurrentMeasure_def)

lemma findCurrentMeasure_example_5:
  "findCurrentMeasure example_anchors 5 = \<lparr>located_measure = 1, progress = 1 / 2\<rparr>"
  by (simp add: findCurrentMeasure_def example_anchors_def)

lemma findCurrentMeasure_example_10:
  "findCurrentMeasure example_anchors 10 = \<lparr>located_measure = 2, progress = 0\<rparr>"
  by (simp add: findCurrentMeasure_def example_anchors_def)

lemma findCurrentMeasure_example_17_5:
  "findCurrentMeasure example_anchors (35 / 2) = \<lparr>located_measure = 2, progress = 1 / 2\<rparr>"
  by (simp add: findCurrentMeasure_def example_anchors_def)

lemma findCurrentMeasure_example_30:
  "findCurrentMeasure example_anchors 30 = \<lparr>located_measure = 4, progress = 0\<rparr>"
  by (simp add: findCurrentMeasure_def example_anchors_def)

subsection \<open>The interpolator against its reference definition\<close>

text \<open>
  Claim C1.  \<open>findCurrentMeasure\<close> agrees with the reference definition \<open>locate\<close>
  wherever the reference names a result: on the empty anchor list, and whenever some anchor
  lies at or before the query time.  There the active anchor is the last anchor of the
  time-sorted list whose time is at most the query time, the progress is the clamped
  quotient against the next anchor's time, and it is \<open>0\<close> on the unbounded last segment.
  The empty list gives \<open>(1, 0)\<close>, and on the anchors \<open>[(1,0),(2,10),(4,25)]\<close> the times
  \<open>5\<close>, \<open>10\<close>, \<open>17.5\<close> and \<open>30\<close> give \<open>(1, 0.5)\<close>, \<open>(2, 0)\<close>, \<open>(2, 0.5)\<close> and \<open>(4, 0)\<close>.
\<close>

theorem findCurrentMeasure_refines_locate:
  "(ancs = [] \<or> (\<exists>a\<in>set ancs. time a \<le> t)
      \<longrightarrow> locate ancs t = Some (findCurrentMeasure ancs t))
   \<and> findCurrentMeasure [] t = \<lparr>located_measure = 1, progress = 0\<rparr>
   \<and> findCurrentMeasure example_anchors 5 = \<lparr>located_measure = 1, progress = 1 / 2\<rparr>
   \<and> findCurrentMeasure example_anchors 10 = \<lparr>located_measure = 2, progress = 0\<rparr>
   \<and> findCurrentMeasure example_anchors (35 / 2) = \<lparr>located_measure = 2, progress = 1 / 2\<rparr>
   \<and> findCurrentMeasure example_anchors 30 = \<lparr>located_measure = 4, progress = 0\<rparr>"
  using findCurrentMeasure_locate [of ancs t]
  by (simp only: findCurrentMeasure_empty findCurrentMeasure_example_5
      findCurrentMeasure_example_10 findCurrentMeasure_example_17_5
      findCurrentMeasure_example_30 simp_thms) blast

theorem findCurrentMeasure_refines_locate_witness:
  "list_ex (\<lambda>a. time a \<le> 5) example_anchors
   \<and> locate example_anchors 5 = Some \<lparr>located_measure = 1, progress = 1 / 2\<rparr>"
proof -
  have h: "\<exists>a\<in>set example_anchors. time a \<le> 5"
    by (simp add: example_anchors_def)
  from findCurrentMeasure_refines_locate [of example_anchors 5] h
  have "locate example_anchors 5 = Some (findCurrentMeasure example_anchors 5)" by blast
  with h show ?thesis by (simp add: findCurrentMeasure_example_5 list_ex_iff)
qed

subsection \<open>Anchors that share a time\<close>

text \<open>
  Claim C2, as stated, fails: the sort is by time only and is stable, so two anchors with
  the same time keep the order of the input list, and the scan ends on the one listed
  last, whatever its measure number.  With \<open>(2, 5)\<close> listed before \<open>(1, 5)\<close> the active
  measure at time \<open>5\<close> is \<open>1\<close>, not the larger measure \<open>2\<close>.
\<close>

theorem findCurrentMeasure_tie_counterexample:
  "time \<lparr>measure_num = 2, time = 5\<rparr> = time \<lparr>measure_num = 1, time = 5\<rparr>
   \<and> time \<lparr>measure_num = 2, time = 5\<rparr> \<le> 5
   \<and> located_measure
        (findCurrentMeasure [\<lparr>measure_num = 2, time = 5\<rparr>, \<lparr>measure_num = 1, time = 5\<rparr>] 5) = 1
   \<and> located_measure
        (findCurrentMeasure [\<lparr>measure_num = 2, time = 5\<rparr>, \<lparr>measure_num = 1, time = 5\<rparr>] 5)
       \<noteq> max 2 1"
  by (simp add: findCurrentMeasure_def)

text \<open>
  Claim C2, amended.  When the anchors that share the greatest time at or before the query
  time are several, the active measure is the measure of the one that comes last in the
  anchor list as given; it is the larger measure only when the list gives them in
  ascending measure order.
\<close>

theorem findCurrentMeasure_tie_last_listed:
  assumes "a \<in> set ancs" and "time a \<le> t"
    and "\<forall>b\<in>set ancs. time b \<le> t \<longrightarrow> time b \<le> time a"
  shows "located_measure (findCurrentMeasure ancs t)
       = measure_num (last (filter (\<lambda>b. time b = time a) ancs))"
  using assms by (rule fcm_tie)

theorem findCurrentMeasure_tie_last_listed_witness:
  "\<lparr>measure_num = 2, time = 5\<rparr> \<in> set [\<lparr>measure_num = 2, time = 5\<rparr>, \<lparr>measure_num = 1, time = 5\<rparr>]
   \<and> time \<lparr>measure_num = 2, time = 5\<rparr> \<le> 5
   \<and> located_measure
        (findCurrentMeasure [\<lparr>measure_num = 2, time = 5\<rparr>, \<lparr>measure_num = 1, time = 5\<rparr>] 5) = 1"
  using findCurrentMeasure_tie_last_listed
    [of "\<lparr>measure_num = 2, time = 5\<rparr>"
        "[\<lparr>measure_num = 2, time = 5\<rparr>, \<lparr>measure_num = 1, time = 5\<rparr>]" 5]
  by simp

subsection \<open>Monotonicity of the active measure\<close>

text \<open>
  Claim C3, as stated, fails: nothing orders the measure numbers by time.  With the anchors
  \<open>[(1,0),(3,5),(2,10)]\<close> the active measure is \<open>3\<close> at time \<open>5\<close> and \<open>2\<close> at time \<open>10\<close>.
\<close>

theorem findCurrentMeasure_mono_counterexample:
  "(5::real) \<le> 10
   \<and> \<not> located_measure
          (findCurrentMeasure
             [\<lparr>measure_num = 1, time = 0\<rparr>, \<lparr>measure_num = 3, time = 5\<rparr>,
              \<lparr>measure_num = 2, time = 10\<rparr>] 5)
        \<le> located_measure
          (findCurrentMeasure
             [\<lparr>measure_num = 1, time = 0\<rparr>, \<lparr>measure_num = 3, time = 5\<rparr>,
              \<lparr>measure_num = 2, time = 10\<rparr>] 10)"
  by (simp add: findCurrentMeasure_def)

text \<open>
  Claim C3, amended.  For every anchor list whose measure numbers are at least \<open>1\<close> and
  do not decrease along the time-sorted order, and every pair of query times
  \<open>t1 \<le> t2\<close>, the active measure at \<open>t1\<close> is at most the active measure at \<open>t2\<close>.
\<close>

theorem findCurrentMeasure_mono:
  assumes "sorted (map measure_num (sort_key time ancs))"
    and "\<forall>a\<in>set ancs. 1 \<le> measure_num a"
    and "t1 \<le> t2"
  shows "located_measure (findCurrentMeasure ancs t1)
       \<le> located_measure (findCurrentMeasure ancs t2)"
  using assms by (rule fcm_mono)

theorem findCurrentMeasure_mono_witness:
  "sorted (map measure_num (sort_key time example_anchors))
   \<and> list_all (\<lambda>a. 1 \<le> measure_num a) example_anchors
   \<and> (5::real) \<le> 30
   \<and> located_measure (findCurrentMeasure example_anchors 5)
       \<le> located_measure (findCurrentMeasure example_anchors 30)"
proof -
  have h1: "sorted (map measure_num (sort_key time example_anchors))"
    by (simp add: example_anchors_def)
  have h2: "\<forall>a\<in>set example_anchors. 1 \<le> measure_num a"
    by (simp add: example_anchors_def)
  have h3: "(5::real) \<le> 30" by simp
  from findCurrentMeasure_mono [OF h1 h2 h3] h1 h2 h3 show ?thesis
    by (simp add: list_all_iff)
qed

subsection \<open>Query times before every anchor\<close>

text \<open>
  Claim C9.  For a non-empty anchor list and a query time strictly before every anchor's
  time the scan breaks at the first anchor and the initial values stand: the result is
  measure \<open>1\<close> with progress \<open>0\<close>, also when no anchor has measure \<open>1\<close>
  (\<open>[(3, 5)]\<close> at time \<open>2\<close> gives measure \<open>1\<close>).
\<close>

theorem findCurrentMeasure_before_first_anchor:
  assumes "ancs \<noteq> []" and "\<forall>a\<in>set ancs. t < time a"
  shows "findCurrentMeasure ancs t = \<lparr>located_measure = 1, progress = 0\<rparr>"
  using assms by (rule fcm_before_all)

theorem findCurrentMeasure_before_first_anchor_witness:
  "[\<lparr>measure_num = 3, time = 5\<rparr>] \<noteq> []
   \<and> list_all (\<lambda>a. 2 < time a) [\<lparr>measure_num = 3, time = 5\<rparr>]
   \<and> findCurrentMeasure [\<lparr>measure_num = 3, time = 5\<rparr>] 2 = \<lparr>located_measure = 1, progress = 0\<rparr>
   \<and> list_all (\<lambda>a. measure_num a \<noteq> 1) [\<lparr>measure_num = 3, time = 5\<rparr>]"
  using findCurrentMeasure_before_first_anchor [of "[\<lparr>measure_num = 3, time = 5\<rparr>]" 2]
  by simp

subsection \<open>Properties of the click handler\<close>

lemma clickExtent_total:
  "list_all (\<lambda>s. s \<noteq> None) staves \<Longrightarrow> \<exists>ext'. clickExtent staves ext = Inr ext'"
  by (induction staves ext rule: clickExtent.induct) (auto split: option.splits)


lemma hitTest_none:
  assumes "\<forall>j<length ml. \<not> measureHit (ml ! j) u x y"
  shows "hitTest ml i u x y = Inr (- 1) \<or> hitTest ml i u x y = Inl TypeError"
  using assms
proof (induction ml i u x y rule: hitTest.induct)
  case (1 i unit clickX clickY)
  then show ?case by simp
next
  case (2 rest i unit clickX clickY)
  then have "\<forall>j<length rest. \<not> measureHit (rest ! j) unit clickX clickY" by auto
  with "2.IH" show ?case by simp
next
  case (3 measureStaves rest i unit clickX clickY)
  show ?case
  proof (cases "clickExtent measureStaves initialExtent")
    case (Inl e)
    then show ?thesis by (cases e) simp
  next
    case (Inr ext)
    from "3.prems" have "\<not> measureHit ((Some measureStaves # rest) ! 0) unit clickX clickY"
      by blast
    with Inr have ni: "\<not> insideBox ext unit clickX clickY" by (simp add: measureHit_def)
    from "3.prems" have "\<forall>j<length rest. \<not> measureHit (rest ! j) unit clickX clickY" by auto
    with "3.IH" [OF Inr ni] Inr ni show ?thesis by simp
  qed
qed

lemma hitTest_none_wf:
  assumes "noAbsentStaff ml" "\<forall>j<length ml. \<not> measureHit (ml ! j) u x y"
  shows "hitTest ml i u x y = Inr (- 1)"
  using assms
proof (induction ml i u x y rule: hitTest.induct)
  case (1 i unit clickX clickY)
  then show ?case by simp
next
  case (2 rest i unit clickX clickY)
  then have "\<forall>j<length rest. \<not> measureHit (rest ! j) unit clickX clickY" by auto
  moreover have "noAbsentStaff rest" using "2.prems"(1) by (simp add: noAbsentStaff_def)
  ultimately show ?case using "2.IH" by simp
next
  case (3 measureStaves rest i unit clickX clickY)
  from "3.prems"(1) have "list_all (\<lambda>s. s \<noteq> None) measureStaves"
    by (simp add: noAbsentStaff_def)
  from clickExtent_total [OF this] obtain ext where
    ext: "clickExtent measureStaves initialExtent = Inr ext" by blast
  from "3.prems" have "\<not> measureHit ((Some measureStaves # rest) ! 0) unit clickX clickY"
    by blast
  with ext have ni: "\<not> insideBox ext unit clickX clickY" by (simp add: measureHit_def)
  from "3.prems" have "\<forall>j<length rest. \<not> measureHit (rest ! j) unit clickX clickY" by auto
  moreover have "noAbsentStaff rest" using "3.prems"(1) by (simp add: noAbsentStaff_def)
  ultimately show ?case using "3.IH" [OF ext ni] ext ni by simp
qed



lemma targetAnchor_None:
  "targetAnchor as n = None \<longleftrightarrow> (\<forall>b\<in>set as. n < measure_num b)"
  by (auto simp: targetAnchor_def find_None_iff)





lemma handleScoreClick_miss:
  assumes env: "osmdRef v = Some osmd" "GraphicSheet osmd = Some gs" "containerRef v = Some rect"
    and miss: "\<forall>j<length (MeasureList gs). \<not> measureHit (MeasureList gs ! j) (unitInPixels gs) (clientX - rect_left rect) (clientY - rect_top rect)"
  shows "handleScoreClick v clientX clientY = Inr v \<or> handleScoreClick v clientX clientY = Inl TypeError"
  using hitTest_none [OF miss, of 0] env by (auto simp: handleScoreClick_def Let_def)

lemma handleScoreClick_miss_wf:
  assumes env: "osmdRef v = Some osmd" "GraphicSheet osmd = Some gs" "containerRef v = Some rect"
    and wf: "noAbsentStaff (MeasureList gs)"
    and miss: "\<forall>j<length (MeasureList gs). \<not> measureHit (MeasureList gs ! j) (unitInPixels gs) (clientX - rect_left rect) (clientY - rect_top rect)"
  shows "handleScoreClick v clientX clientY = Inr v"
  using hitTest_none_wf [OF wf miss, of 0] env by (auto simp: handleScoreClick_def Let_def)

lemma handleScoreClick_no_anchor:
  assumes "\<forall>b\<in>set (anchors v). k + 1 < measure_num b"
    and env: "osmdRef v = Some osmd" "GraphicSheet osmd = Some gs" "containerRef v = Some rect"
    and "hitTest (MeasureList gs) 0 (unitInPixels gs) (clientX - rect_left rect) (clientY - rect_top rect) = Inr k"
  shows "handleScoreClick v clientX clientY = Inr v"
proof -
  from assms(1) have "targetAnchor (anchors v) (k + 1) = None" by (simp add: targetAnchor_None)
  with assms show ?thesis by (simp add: handleScoreClick_def Let_def)
qed

lemma handleScoreClick_unloaded:
  "osmdRef v = None \<or> (\<exists>osmd. osmdRef v = Some osmd \<and> GraphicSheet osmd = None) \<or> containerRef v = None
   \<Longrightarrow> handleScoreClick v clientX clientY = Inr v"
  by (auto simp: handleScoreClick_def split: option.splits)


lemma example_misses:
  "\<not> measureHit (MeasureList example_sheet ! 0) 10 1000 20"
  "\<not> measureHit (MeasureList example_sheet ! 1) 10 1000 20"
  "\<not> measureHit (MeasureList example_sheet ! 2) 10 1000 20"
  by (simp_all add: example_sheet_def example_staff_def measureHit_def initialExtent_def
      extendExtent_def insideBox_def MAX_VALUE_def MIN_VALUE_def Let_def)

lemma example_sheet_facts:
  "length (MeasureList example_sheet) = 3"
  "unitInPixels example_sheet = 10"
  "noAbsentStaff (MeasureList example_sheet)"
  by (simp_all add: example_sheet_def unitInPixels_def noAbsentStaff_def)

lemma less_three: "(j::nat) < 3 \<longleftrightarrow> j = 0 \<or> j = 1 \<or> j = 2"
  by auto

subsection \<open>Click-to-seek: the hit and the seek\<close>




text \<open>
  Claim C10.  With the score loaded: if no measure's box holds the click point, or the
  clicked measure number is strictly smaller than every anchor's measure number, the
  handler makes no write: it returns the state as it was, audio clock included, or raises
  before any write; on a layout without absent staff measures it returns the state as it
  was.
\<close>

theorem handleScoreClick_no_seek:
  assumes "osmdRef v = Some osmd" and "GraphicSheet osmd = Some gs"
    and "containerRef v = Some rect"
    and "(\<forall>j<length (MeasureList gs).
            \<not> measureHit (MeasureList gs ! j) (unitInPixels gs)
                (clientX - rect_left rect) (clientY - rect_top rect))
         \<or> (\<exists>k. hitTest (MeasureList gs) 0 (unitInPixels gs)
                  (clientX - rect_left rect) (clientY - rect_top rect) = Inr k
               \<and> (\<forall>b\<in>set (anchors v). k + 1 < measure_num b))"
  shows "(handleScoreClick v clientX clientY = Inr v
          \<or> handleScoreClick v clientX clientY = Inl TypeError)
         \<and> (noAbsentStaff (MeasureList gs) \<longrightarrow> handleScoreClick v clientX clientY = Inr v)"
  using assms(4)
proof (elim disjE exE conjE)
  assume miss: "\<forall>j<length (MeasureList gs).
            \<not> measureHit (MeasureList gs ! j) (unitInPixels gs)
                (clientX - rect_left rect) (clientY - rect_top rect)"
  show ?thesis
    using handleScoreClick_miss [OF assms(1-3) miss]
      handleScoreClick_miss_wf [OF assms(1-3) _ miss] by blast
next
  fix k
  assume "hitTest (MeasureList gs) 0 (unitInPixels gs)
                  (clientX - rect_left rect) (clientY - rect_top rect) = Inr k"
    and "\<forall>b\<in>set (anchors v). k + 1 < measure_num b"
  from handleScoreClick_no_anchor [OF this(2) assms(1-3) this(1)]
  show ?thesis by simp
qed

theorem handleScoreClick_no_seek_witness:
  "\<not> measureHit (MeasureList example_sheet ! 0) (unitInPixels example_sheet) 1000 20
   \<and> \<not> measureHit (MeasureList example_sheet ! 1) (unitInPixels example_sheet) 1000 20
   \<and> \<not> measureHit (MeasureList example_sheet ! 2) (unitInPixels example_sheet) 1000 20
   \<and> handleScoreClick example_viewer 1000 20 = Inr example_viewer
   \<and> audioRef example_viewer = Some \<lparr>currentTime = 0\<rparr>"
proof -
  have env: "osmdRef example_viewer = Some \<lparr>GraphicSheet = Some example_sheet\<rparr>"
    "GraphicSheet \<lparr>GraphicSheet = Some example_sheet\<rparr> = Some example_sheet"
    "containerRef example_viewer = Some \<lparr>rect_left = 0, rect_top = 0\<rparr>"
    by (simp_all add: example_viewer_def)
  have miss: "\<forall>j<length (MeasureList example_sheet).
      \<not> measureHit (MeasureList example_sheet ! j) (unitInPixels example_sheet)
          (1000 - rect_left \<lparr>rect_left = 0, rect_top = 0\<rparr>) (20 - rect_top \<lparr>rect_left = 0, rect_top = 0\<rparr>)"
    using example_misses by (auto simp: example_sheet_facts less_three)
  from handleScoreClick_no_seek [OF env disjI1, OF miss] example_sheet_facts(3)
  have "handleScoreClick example_viewer 1000 20 = Inr example_viewer" by blast
  moreover have "audioRef example_viewer = Some \<lparr>currentTime = 0\<rparr>"
    by (simp add: example_viewer_def)
  ultimately show ?thesis
    using example_misses unfolding example_sheet_facts(2) by blast
qed

subsection \<open>Properties of the visibility helper\<close>

lemma elemsOpacity_opacity:
  "opacity (elemsOpacity val es st e) = (if e \<in> set es then val else opacity (st e))"
  unfolding elemsOpacity_def
  by (induction es arbitrary: st) (auto simp: setOpacity_def)

lemma elemsOpacity_color:
  "color (elemsOpacity val es st e) = color (st e)"
  unfolding elemsOpacity_def
  by (induction es arbitrary: st) (auto simp: setOpacity_def)

lemma applyBatches_Nil [simp]: "applyBatches [] st = st"
  by (simp add: applyBatches_def)

lemma applyBatches_Cons [simp]:
  "applyBatches ((es, val) # bs) st = applyBatches bs (elemsOpacity val es st)"
  by (simp add: applyBatches_def)

lemma applyBatches_append [simp]:
  "applyBatches (bs @ cs) st = applyBatches cs (applyBatches bs st)"
  by (simp add: applyBatches_def)

lemma applyBatches_untouched:
  "\<forall>(es, val)\<in>set bs. e \<notin> set es \<Longrightarrow> opacity (applyBatches bs st e) = opacity (st e)"
  by (induction bs arbitrary: st) (auto simp: elemsOpacity_opacity)

lemma applyBatches_final:
  assumes "\<forall>(es, val)\<in>set bs. e \<in> set es \<longrightarrow> val = w"
    and "\<exists>(es, val)\<in>set bs. e \<in> set es"
  shows "opacity (applyBatches bs st e) = w"
  using assms
proof (induction bs arbitrary: st)
  case Nil
  then show ?case by simp
next
  case (Cons b bs)
  obtain es val where b: "b = (es, val)" by (cases b)
  show ?case
  proof (cases "\<exists>(es, val)\<in>set bs. e \<in> set es")
    case True
    with Cons show ?thesis unfolding b by auto
  next
    case False
    with Cons.prems(2) have in_b: "e \<in> set es" unfolding b by auto
    with Cons.prems(1) have "val = w" unfolding b by auto
    moreover from False have "\<forall>(es, val)\<in>set bs. e \<notin> set es" by auto
    ultimately show ?thesis
      unfolding b using in_b by (simp add: applyBatches_untouched elemsOpacity_opacity)
  qed
qed

lemma notesOpacity_elems:
  "notesOpacity val ns st = elemsOpacity val (List.map_filter element ns) st"
  unfolding notesOpacity_def elemsOpacity_def
  by (induction ns arbitrary: st) (auto simp: List.map_filter_simps split: option.splits)

lemma fold_noteMapVisibility:
  "fold (noteMapVisibility c) nm st = applyBatches (map (noteBatch c) nm) st"
  by (induction nm arbitrary: st)
     (auto simp: noteMapVisibility_def noteBatch_def notesOpacity_elems elemsOpacity_def)

lemma fold_beamsMapVisibility:
  "fold (beamsMapVisibility c) bm st = applyBatches (map (beamBatch c) bm) st"
  by (induction bm arbitrary: st)
     (auto simp: beamsMapVisibility_def beamBatch_def)

lemma updateMeasureVisibility_batches:
  "revealMode v \<Longrightarrow> elements (updateMeasureVisibility v c)
     = applyBatches (map (noteBatch c) (noteMap v) @ map (beamBatch c) (beamsMap v)) (elements v)"
  by (simp add: updateMeasureVisibility_def fold_noteMapVisibility fold_beamsMapVisibility)

lemma in_noteGlyphs:
  "e \<in> set (noteGlyphs nm m) \<longleftrightarrow> (\<exists>ns. (m, ns) \<in> set nm \<and> e \<in> set (List.map_filter element ns))"
  by (auto simp: noteGlyphs_def split: if_splits)

lemma in_mappedGlyphs:
  "e \<in> set (mappedGlyphs bm m) \<longleftrightarrow> (\<exists>es. (m, es) \<in> set bm \<and> e \<in> set es)"
  by (auto simp: mappedGlyphs_def split: if_splits)

lemma fst_noteBatch:
  "e \<in> set (fst (noteBatch c (k, ns))) \<longleftrightarrow> k \<noteq> c \<and> e \<in> set (List.map_filter element ns)"
  by (auto simp: noteBatch_def)

lemma snd_noteBatch:
  "k \<noteq> c \<Longrightarrow> snd (noteBatch c (k, ns)) = (if k > c then ''0'' else ''1'')"
  by (auto simp: noteBatch_def)

lemma fst_beamBatch: "fst (beamBatch c (k, es)) = es"
  by (auto simp: beamBatch_def)

lemma snd_beamBatch: "snd (beamBatch c (k, es)) = (if k > c then ''0'' else ''1'')"
  by (auto simp: beamBatch_def)

lemma updateMeasureVisibility_glyph:
  assumes reveal: "revealMode v"
    and part: "\<forall>m m'. m \<noteq> m' \<longrightarrow> set (glyphs v m) \<inter> set (glyphs v m') = {}"
    and e: "e \<in> set (glyphs v m)"
    and cur: "m = c \<longrightarrow> e \<in> set (mappedGlyphs (beamsMap v) c)"
  shows "opacity (elements (updateMeasureVisibility v c) e) = (if m > c then ''0'' else ''1'')"
proof -
  let ?w = "if m > c then ''0'' else ''1''"
  let ?bs = "map (noteBatch c) (noteMap v) @ map (beamBatch c) (beamsMap v)"
  have same: "k = m" if "e \<in> set (glyphs v k)" for k
    using part e that by blast
  have all: "\<forall>(es, val)\<in>set ?bs. e \<in> set es \<longrightarrow> val = ?w"
  proof (clarify)
    fix es val
    assume b: "(es, val) \<in> set ?bs" and ees: "e \<in> set es"
    from b consider k ns where "(k, ns) \<in> set (noteMap v)" "(es, val) = noteBatch c (k, ns)"
      | k bms where "(k, bms) \<in> set (beamsMap v)" "(es, val) = beamBatch c (k, bms)"
      by auto
    then show "val = ?w"
    proof cases
      case 1
      from 1(2) ees have "e \<in> set (fst (noteBatch c (k, ns)))" by (metis fst_conv)
      then have kc: "k \<noteq> c" and "e \<in> set (List.map_filter element ns)"
        by (simp_all add: fst_noteBatch)
      with 1(1) have "e \<in> set (glyphs v k)" by (auto simp: glyphs_def in_noteGlyphs)
      then have "k = m" by (rule same)
      moreover from 1(2) have "val = snd (noteBatch c (k, ns))" by (metis snd_conv)
      ultimately show ?thesis using kc by (simp add: snd_noteBatch)
    next
      case 2
      from 2(2) ees have "e \<in> set bms" by (metis fst_beamBatch fst_conv)
      with 2(1) have "e \<in> set (glyphs v k)" by (auto simp: glyphs_def in_mappedGlyphs)
      then have "k = m" by (rule same)
      moreover from 2(2) have "val = snd (beamBatch c (k, bms))" by (metis snd_conv)
      ultimately show ?thesis by (simp add: snd_beamBatch)
    qed
  qed
  have ex: "\<exists>(es, val)\<in>set ?bs. e \<in> set es"
  proof (cases "e \<in> set (mappedGlyphs (beamsMap v) m)")
    case True
    then obtain bms where "(m, bms) \<in> set (beamsMap v)" "e \<in> set bms"
      by (auto simp: in_mappedGlyphs)
    then have "beamBatch c (m, bms) \<in> set ?bs" "e \<in> set (fst (beamBatch c (m, bms)))"
      by (auto simp: fst_beamBatch)
    then show ?thesis by (metis (mono_tags, lifting) case_prod_beta)
  next
    case False
    with cur have mc: "m \<noteq> c" by blast
    from False e obtain ns where "(m, ns) \<in> set (noteMap v)" "e \<in> set (List.map_filter element ns)"
      by (auto simp: glyphs_def in_noteGlyphs)
    with mc have "noteBatch c (m, ns) \<in> set ?bs" "e \<in> set (fst (noteBatch c (m, ns)))"
      by (auto simp: fst_noteBatch)
    then show ?thesis by (metis (mono_tags, lifting) case_prod_beta)
  qed
  from applyBatches_final [OF all ex] reveal show ?thesis
    by (simp add: updateMeasureVisibility_batches)
qed

lemma fold_conditional_opacity:
  "fold (\<lambda>el s. if P el then setOpacity el val s else s) els st = elemsOpacity val (filter P els) st"
  unfolding elemsOpacity_def by (induction els arbitrary: st) auto

lemma fold_contentMapVisibility:
  "fold (contentMapVisibility cl c) cm st = applyBatches (map (contentBatch cl c) cm) st"
  by (induction cm arbitrary: st)
     (auto simp: contentMapVisibility_def contentBatch_def fold_conditional_opacity)

lemma fst_contentBatch:
  "e \<in> set (fst (contentBatch cl c (k, es))) \<longleftrightarrow> e \<in> set es \<and> (k = c \<longrightarrow> isBeamOrRest cl e)"
  by (auto simp: contentBatch_def)

lemma snd_contentBatch: "snd (contentBatch cl c (k, es)) = (if k > c then ''0'' else ''1'')"
  by (auto simp: contentBatch_def)

lemma updateMeasureVisibility3_glyph:
  assumes part: "\<forall>m m'. m \<noteq> m' \<longrightarrow> set (mappedGlyphs cm m) \<inter> set (mappedGlyphs cm m') = {}"
    and e: "e \<in> set (mappedGlyphs cm m)"
    and cur: "m = c \<longrightarrow> isBeamOrRest cl e"
  shows "opacity (updateMeasureVisibility3 NOTE cl cm c st e) = (if m > c then ''0'' else ''1'')"
proof -
  let ?w = "if m > c then ''0'' else ''1''"
  let ?bs = "map (contentBatch cl c) cm"
  have same: "k = m" if "e \<in> set (mappedGlyphs cm k)" for k
    using part e that by blast
  have all: "\<forall>(es, val)\<in>set ?bs. e \<in> set es \<longrightarrow> val = ?w"
  proof (clarify)
    fix es val
    assume b: "(es, val) \<in> set ?bs" and ees: "e \<in> set es"
    from b obtain k els where k: "(k, els) \<in> set cm" "(es, val) = contentBatch cl c (k, els)"
      by auto
    from k(2) ees have "e \<in> set (fst (contentBatch cl c (k, els)))" by (metis fst_conv)
    then have "e \<in> set els" by (simp add: fst_contentBatch)
    with k(1) have "e \<in> set (mappedGlyphs cm k)" by (auto simp: in_mappedGlyphs)
    then have "k = m" by (rule same)
    moreover from k(2) have "val = snd (contentBatch cl c (k, els))" by (metis snd_conv)
    ultimately show "val = ?w" by (simp add: snd_contentBatch)
  qed
  have ex: "\<exists>(es, val)\<in>set ?bs. e \<in> set es"
  proof -
    from e obtain els where "(m, els) \<in> set cm" "e \<in> set els"
      by (auto simp: in_mappedGlyphs)
    with cur have "contentBatch cl c (m, els) \<in> set ?bs" "e \<in> set (fst (contentBatch cl c (m, els)))"
      by (auto simp: fst_contentBatch)
    then show ?thesis by (metis (mono_tags, lifting) case_prod_beta)
  qed
  from applyBatches_final [OF all ex] show ?thesis
    by (simp add: updateMeasureVisibility3_def fold_contentMapVisibility)
qed

lemma example_reveal_partition:
  "\<forall>m m'. m \<noteq> m' \<longrightarrow> set (glyphs example_reveal m) \<inter> set (glyphs example_reveal m') = {}"
  by (auto simp: glyphs_def noteGlyphs_def mappedGlyphs_def example_reveal_def example_viewer_def
      example_note_def List.map_filter_simps split: if_splits)

lemma example_content_partition:
  "\<forall>m m'. m \<noteq> m' \<longrightarrow> set (mappedGlyphs example_content m) \<inter> set (mappedGlyphs example_content m') = {}"
  by (auto simp: mappedGlyphs_def example_content_def split: if_splits)

lemma example_reveal_glyphs:
  "11 \<in> set (glyphs example_reveal 1)" "12 \<in> set (glyphs example_reveal 1)"
  "31 \<in> set (glyphs example_reveal 3)" "32 \<in> set (glyphs example_reveal 3)"
  "22 \<in> set (mappedGlyphs (beamsMap example_reveal) 2)"
  by (simp_all add: glyphs_def noteGlyphs_def mappedGlyphs_def example_reveal_def example_viewer_def
      example_note_def List.map_filter_simps)

lemma example_content_glyphs:
  "11 \<in> set (mappedGlyphs example_content 1)" "32 \<in> set (mappedGlyphs example_content 3)"
  "22 \<in> set (mappedGlyphs example_content 2)" "isBeamOrRest example_classes 22"
  by (simp_all add: mappedGlyphs_def example_content_def isBeamOrRest_def example_classes_def)

subsection \<open>Reveal-mode visibility: past, future and current measure\<close>

text \<open>
  Claim C5.  In reveal mode, with every glyph mapped to one measure only, after
  \<open>updateMeasureVisibility\<close> for the current measure \<open>c\<close> every glyph of a measure
  \<open>m < c\<close> has opacity \<open>1\<close>, every glyph of a measure \<open>m > c\<close> has opacity \<open>0\<close>, and the
  beams of the current measure have opacity \<open>1\<close>.  The same holds for the viewer with
  three reveal modes in its mode \<open>NOTE\<close>, where the current measure's glyphs of class
  \<open>vf-beam\<close> or \<open>vf-rest\<close> get opacity \<open>1\<close>.
\<close>

theorem updateMeasureVisibility_reveal:
  "(revealMode v \<and> (\<forall>m m'. m \<noteq> m' \<longrightarrow> set (glyphs v m) \<inter> set (glyphs v m') = {}) \<longrightarrow>
      (\<forall>m e. e \<in> set (glyphs v m) \<longrightarrow>
          (m < c \<longrightarrow> opacity (elements (updateMeasureVisibility v c) e) = ''1'')
        \<and> (c < m \<longrightarrow> opacity (elements (updateMeasureVisibility v c) e) = ''0''))
      \<and> (\<forall>e\<in>set (mappedGlyphs (beamsMap v) c).
            opacity (elements (updateMeasureVisibility v c) e) = ''1''))
   \<and> ((\<forall>m m'. m \<noteq> m' \<longrightarrow> set (mappedGlyphs cm m) \<inter> set (mappedGlyphs cm m') = {}) \<longrightarrow>
      (\<forall>m e. e \<in> set (mappedGlyphs cm m) \<longrightarrow>
          (m < c \<longrightarrow> opacity (updateMeasureVisibility3 NOTE cl cm c st e) = ''1'')
        \<and> (c < m \<longrightarrow> opacity (updateMeasureVisibility3 NOTE cl cm c st e) = ''0'')
        \<and> (m = c \<and> isBeamOrRest cl e \<longrightarrow>
              opacity (updateMeasureVisibility3 NOTE cl cm c st e) = ''1'')))"
proof (intro conjI impI allI ballI; (elim conjE)?)
  fix m e
  assume h: "revealMode v" "\<forall>m m'. m \<noteq> m' \<longrightarrow> set (glyphs v m) \<inter> set (glyphs v m') = {}"
    "e \<in> set (glyphs v m)"
  { assume "m < c"
    with updateMeasureVisibility_glyph [OF h, of c]
    show "opacity (elements (updateMeasureVisibility v c) e) = ''1''" by simp }
  { assume "c < m"
    with updateMeasureVisibility_glyph [OF h, of c]
    show "opacity (elements (updateMeasureVisibility v c) e) = ''0''" by simp }
next
  fix e
  assume h: "revealMode v" "\<forall>m m'. m \<noteq> m' \<longrightarrow> set (glyphs v m) \<inter> set (glyphs v m') = {}"
    and e: "e \<in> set (mappedGlyphs (beamsMap v) c)"
  from e have "e \<in> set (glyphs v c)" by (simp add: glyphs_def)
  from updateMeasureVisibility_glyph [OF h this, of c] e
  show "opacity (elements (updateMeasureVisibility v c) e) = ''1''" by simp
next
  fix m e
  assume h: "\<forall>m m'. m \<noteq> m' \<longrightarrow> set (mappedGlyphs cm m) \<inter> set (mappedGlyphs cm m') = {}"
    "e \<in> set (mappedGlyphs cm m)"
  { assume "m < c"
    with updateMeasureVisibility3_glyph [OF h, of c cl st]
    show "opacity (updateMeasureVisibility3 NOTE cl cm c st e) = ''1''" by simp }
  { assume "c < m"
    with updateMeasureVisibility3_glyph [OF h, of c cl st]
    show "opacity (updateMeasureVisibility3 NOTE cl cm c st e) = ''0''" by simp }
  { assume "m = c" "isBeamOrRest cl e"
    with updateMeasureVisibility3_glyph [OF h, of c cl st]
    show "opacity (updateMeasureVisibility3 NOTE cl cm c st e) = ''1''" by simp }
qed

theorem updateMeasureVisibility_reveal_witness:
  "revealMode example_reveal
   \<and> opacity (elements example_reveal 11) = ''0''
   \<and> opacity (elements (updateMeasureVisibility example_reveal 2) 11) = ''1''
   \<and> opacity (elements (updateMeasureVisibility example_reveal 2) 12) = ''1''
   \<and> opacity (elements (updateMeasureVisibility example_reveal 2) 31) = ''0''
   \<and> opacity (elements (updateMeasureVisibility example_reveal 2) 32) = ''0''
   \<and> opacity (elements (updateMeasureVisibility example_reveal 2) 22) = ''1''
   \<and> opacity (updateMeasureVisibility3 NOTE example_classes example_content 2
        (elements example_reveal) 11) = ''1''
   \<and> opacity (updateMeasureVisibility3 NOTE example_classes example_content 2
        (elements example_reveal) 32) = ''0''
   \<and> opacity (updateMeasureVisibility3 NOTE example_classes example_content 2
        (elements example_reveal) 22) = ''1''"
proof -
  have r: "revealMode example_reveal" "opacity (elements example_reveal 11) = ''0''"
    by (simp_all add: example_reveal_def example_viewer_def)
  note t = updateMeasureVisibility_reveal
    [of example_reveal 2 example_content example_classes "elements example_reveal"]
  from t r(1) example_reveal_partition
  have a: "\<And>m e. e \<in> set (glyphs example_reveal m) \<Longrightarrow>
          (m < 2 \<longrightarrow> opacity (elements (updateMeasureVisibility example_reveal 2) e) = ''1'')
        \<and> (2 < m \<longrightarrow> opacity (elements (updateMeasureVisibility example_reveal 2) e) = ''0'')"
    and b: "\<And>e. e \<in> set (mappedGlyphs (beamsMap example_reveal) 2) \<Longrightarrow>
            opacity (elements (updateMeasureVisibility example_reveal 2) e) = ''1''"
    by blast+
  from t example_content_partition
  have c: "\<And>m e. e \<in> set (mappedGlyphs example_content m) \<Longrightarrow>
          (m < 2 \<longrightarrow> opacity (updateMeasureVisibility3 NOTE example_classes example_content 2
              (elements example_reveal) e) = ''1'')
        \<and> (2 < m \<longrightarrow> opacity (updateMeasureVisibility3 NOTE example_classes example_content 2
              (elements example_reveal) e) = ''0'')
        \<and> (m = 2 \<and> isBeamOrRest example_classes e \<longrightarrow>
              opacity (updateMeasureVisibility3 NOTE example_classes example_content 2
              (elements example_reveal) e) = ''1'')"
    by blast
  show ?thesis
    using r a [OF example_reveal_glyphs(1)] a [OF example_reveal_glyphs(2)]
      a [OF example_reveal_glyphs(3)] a [OF example_reveal_glyphs(4)]
      b [OF example_reveal_glyphs(5)]
      c [OF example_content_glyphs(1)] c [OF example_content_glyphs(2)]
      c [OF example_content_glyphs(3)] example_content_glyphs(4)
    by simp
qed

subsection \<open>Properties of the per-frame step\<close>

lemma updateCursorPosition_total:
  "\<exists>v'. updateCursorPosition v audioTime = Inr v'"
  by (auto simp: updateCursorPosition_def split: option.splits prod.splits)

lemma updateCursorPosition_caught:
  assumes "osmdRef v = Some osmd" "isLoaded v" "cursorRef v = Some cursor" "GraphicSheet osmd = Some gs"
    and "positionCursor v cursor gs (findCurrentMeasure (anchors v) audioTime) = (v', Some err)"
  shows "updateCursorPosition v audioTime
       = Inr (v'\<lparr>console := console v' @ [''Error positioning cursor:'']\<rparr>)"
  using assms by (simp add: updateCursorPosition_def)

lemma positionCursor_absent_staff:
  assumes "0 \<le> located_measure loc - 1" "located_measure loc - 1 < int (length (MeasureList gs))"
    and "MeasureList gs ! nat (located_measure loc - 1) = Some measureStaves"
    and "measureStaves \<noteq> []"
    and "cursorExtent measureStaves initialExtent MAX_VALUE = Inl err"
  shows "positionCursor v cursor gs loc = (v, Some err)"
  using assms by (auto simp: positionCursor_def Let_def)

lemma renderFrame_frames: "frames (fst (renderFrame v cursor gs m p ext mn)) = frames v"
  by (auto simp: renderFrame_def Let_def updateMeasureVisibility_def split: option.splits prod.splits)

lemma positionCursor_frames: "frames (fst (positionCursor v cursor gs loc)) = frames v"
  by (auto simp: positionCursor_def Let_def renderFrame_frames split: option.splits sum.splits prod.splits)

lemma updateCursorPosition_frames:
  "updateCursorPosition v t = Inr v' \<Longrightarrow> frames v' = frames v"
  using positionCursor_frames
  by (auto simp: updateCursorPosition_def split: option.splits if_splits prod.splits)
     (metis fst_conv)+

lemma animate_frames:
  "\<exists>v'. animate v = Inr v' \<and> frames v' = Suc (frames v)"
proof -
  let ?t = "case audioRef v of None \<Rightarrow> 0 | Some audio \<Rightarrow> currentTime audio"
  from updateCursorPosition_total obtain v1 where v1: "updateCursorPosition v ?t = Inr v1" by blast
  from updateCursorPosition_frames [OF v1] v1 show ?thesis
    by (simp add: animate_def)
qed

lemma runFrames_frames:
  "\<exists>v'. runFrames ts v = Inr v' \<and> frames v' = frames v + length ts"
proof (induction ts arbitrary: v)
  case Nil
  show ?case by simp
next
  case (Cons t ts)
  let ?v = "v\<lparr>audioRef := map_option (\<lambda>audio. audio\<lparr>currentTime := t\<rparr>) (audioRef v)\<rparr>"
  from animate_frames [of ?v] obtain v1 where v1: "animate ?v = Inr v1" "frames v1 = Suc (frames v)"
    by auto
  from Cons.IH [of v1] v1 show ?case by auto
qed

lemma example_record_caught:
  "positionCursor example_record example_cursor example_sheet
      (findCurrentMeasure (anchors example_record) 0)
   = (example_record
        \<lparr>cursorRef := Some (example_cursor\<lparr>style_height := 40, style_display := ''block'',
              backgroundColor := ''rgba(239, 68, 68, 0.6)'', boxShadow := ''0 0 10px rgba(239, 68, 68, 0.4)''\<rparr>),
         lastMeasureIndexRef := 0,
         elements := applyColor 11 ''#000000'' (elements example_record)\<rparr>, Some TypeError)"
  by (simp add: positionCursor_def renderFrame_def example_record_def example_viewer_def
      example_sheet_def example_staff_def example_cursor_def example_note_def findCurrentMeasure_def
      initialExtent_def extendExtent_def visualStartX_def cursorX_def moveCursor_def unitInPixels_def
      MAX_VALUE_def MIN_VALUE_def Let_def)

lemma example_absent_throws:
  "0 \<le> located_measure (findCurrentMeasure (anchors example_absent) 0) - 1"
  "located_measure (findCurrentMeasure (anchors example_absent) 0) - 1 < int (length [Some [None :: StaffMeasure option]])"
  "[Some [None :: StaffMeasure option]] ! nat (located_measure (findCurrentMeasure (anchors example_absent) 0) - 1) = Some [None]"
  "cursorExtent [None] initialExtent MAX_VALUE = Inl TypeError"
  by (simp_all add: example_absent_def example_record_def example_viewer_def findCurrentMeasure_def)

lemma highlightNote_other:
  "element n \<noteq> Some e \<Longrightarrow> highlightNote reveal hp n st e = st e"
  by (auto simp: highlightNote_def setOpacity_def applyColor_def Let_def split: option.splits)

lemma highlightNotes_untouched:
  "\<forall>n\<in>set ns. element n \<noteq> Some e \<Longrightarrow> fold (highlightNote reveal hp) ns st e = st e"
  by (induction ns arbitrary: st) (simp_all add: highlightNote_other)

lemma highlightNote_same:
  assumes "element n = Some e" "timestamp n = Finite ts"
  shows "highlightNote reveal hp n st e =
     \<lparr>opacity = (if reveal \<and> hp < ts - 4 / 100 then ''0'' else ''1''),
      color = (if ts - 4 / 100 \<le> hp \<and> hp \<le> ts + 1 / 100 then ''#10B981'' else ''#000000'')\<rparr>"
  using assms
  by (cases "st e") (auto simp: highlightNote_def setOpacity_def applyColor_def Let_def)

lemma highlightNotes_note:
  assumes "n \<in> set ns" "element n = Some e" "timestamp n = Finite ts"
    and "\<forall>n'\<in>set ns. element n' = Some e \<longrightarrow> timestamp n' = Finite ts"
  shows "fold (highlightNote reveal hp) ns st e =
     \<lparr>opacity = (if reveal \<and> hp < ts - 4 / 100 then ''0'' else ''1''),
      color = (if ts - 4 / 100 \<le> hp \<and> hp \<le> ts + 1 / 100 then ''#10B981'' else ''#000000'')\<rparr>"
  using assms
proof (induction ns arbitrary: st n)
  case Nil
  then show ?case by simp
next
  case (Cons a ns)
  show ?case
  proof (cases "\<exists>n'\<in>set ns. element n' = Some e")
    case True
    then obtain n' where n': "n' \<in> set ns" "element n' = Some e" by blast
    with Cons.prems(4) have "timestamp n' = Finite ts" by simp
    from Cons.IH [OF n' this] Cons.prems(4) show ?thesis by simp
  next
    case False
    then have un: "\<forall>n\<in>set ns. element n \<noteq> Some e" by blast
    with Cons.prems(1,2) have "a = n" by auto
    with Cons.prems(2,3) un show ?thesis
      by (simp add: highlightNotes_untouched highlightNote_same)
  qed
qed

lemma renderFrame_playback_elements:
  assumes "mode v = PLAYBACK" "map_of (noteMap v) measureNo = Some ns"
  shows "\<exists>st0. elements (fst (renderFrame v cursor gs measureNo p ext mn))
     = fold (highlightNote (revealMode v)
          (highlightProgress ext (visualStartX measureNo (unitInPixels gs) ext mn) p)) ns st0"
  using assms
  by (auto simp: renderFrame_def Let_def updateMeasureVisibility_def split: option.splits)

lemma recordReset3_note:
  assumes "n \<in> set ns" "element n = Some e"
  shows "recordReset3 ns st e = \<lparr>opacity = ''1'', color = ''#000000''\<rparr>"
proof -
  let ?f = "\<lambda>noteData s. case element noteData of None \<Rightarrow> s
       | Some el \<Rightarrow> setOpacity el ''1'' (applyColor el ''#000000'' s)"
  have keep: "fold ?f ms s e = \<lparr>opacity = ''1'', color = ''#000000''\<rparr>"
    if "s e = \<lparr>opacity = ''1'', color = ''#000000''\<rparr>" for ms s
    using that
    by (induction ms arbitrary: s) (auto simp: setOpacity_def applyColor_def split: option.splits)
  from assms have "fold ?f ns st e = \<lparr>opacity = ''1'', color = ''#000000''\<rparr>"
  proof (induction ns arbitrary: st)
    case Nil
    then show ?case by simp
  next
    case (Cons a ns)
    show ?case
    proof (cases "a = n")
      case True
      with Cons.prems(2) have "?f a st e = \<lparr>opacity = ''1'', color = ''#000000''\<rparr>"
        by (cases "st e") (simp add: setOpacity_def applyColor_def)
      from keep [of "?f a st" ns, OF this] show ?thesis by simp
    next
      case False
      with Cons.prems have "n \<in> set ns" by simp
      from Cons.IH [OF this Cons.prems(2)] show ?thesis by simp
    qed
  qed
  then show ?thesis by (simp add: recordReset3_def)
qed

lemma example_record_frame:
  "updateCursorPosition example_record 0
   = Inr (example_record
        \<lparr>cursorRef := Some (example_cursor\<lparr>style_height := 40, style_display := ''block'',
              backgroundColor := ''rgba(239, 68, 68, 0.6)'', boxShadow := ''0 0 10px rgba(239, 68, 68, 0.4)''\<rparr>),
         lastMeasureIndexRef := 0,
         elements := applyColor 11 ''#000000'' (elements example_record),
         console := [''Error positioning cursor:'']\<rparr>)"
proof -
  have "osmdRef example_record = Some \<lparr>GraphicSheet = Some example_sheet\<rparr>"
    "isLoaded example_record" "cursorRef example_record = Some example_cursor"
    "GraphicSheet \<lparr>GraphicSheet = Some example_sheet\<rparr> = Some example_sheet"
    by (simp_all add: example_record_def example_viewer_def)
  from updateCursorPosition_caught [OF this example_record_caught]
  show ?thesis by (simp add: example_record_def example_viewer_def)
qed

subsection \<open>Exceptions in the per-frame step\<close>

text \<open>
  Claim C8.  In every state and at every audio time \<open>updateCursorPosition\<close> returns: no
  exception leaves it.  When the cursor positioning raises, the result is the state
  reached at the raise with one message appended to the console log, so the frame's
  remaining updates are not made; when the raise comes from an absent staff measure of the
  current measure, nothing but the log has changed.  \<open>animate\<close> requests the next frame
  whatever happened, and a run of frames makes one request per frame.
\<close>

theorem updateCursorPosition_exception_caught:
  "(\<exists>v1. updateCursorPosition v audioTime = Inr v1)
   \<and> (osmdRef v = Some osmd \<and> isLoaded v \<and> cursorRef v = Some cursor \<and> GraphicSheet osmd = Some gs
        \<and> positionCursor v cursor gs (findCurrentMeasure (anchors v) audioTime) = (v', Some err)
      \<longrightarrow> updateCursorPosition v audioTime
            = Inr (v'\<lparr>console := console v' @ [''Error positioning cursor:'']\<rparr>))
   \<and> (osmdRef v = Some osmd \<and> isLoaded v \<and> cursorRef v = Some cursor \<and> GraphicSheet osmd = Some gs
        \<and> 0 \<le> located_measure (findCurrentMeasure (anchors v) audioTime) - 1
        \<and> located_measure (findCurrentMeasure (anchors v) audioTime) - 1 < int (length (MeasureList gs))
        \<and> MeasureList gs ! nat (located_measure (findCurrentMeasure (anchors v) audioTime) - 1)
            = Some measureStaves
        \<and> measureStaves \<noteq> []
        \<and> cursorExtent measureStaves initialExtent MAX_VALUE = Inl err
      \<longrightarrow> updateCursorPosition v audioTime
            = Inr (v\<lparr>console := console v @ [''Error positioning cursor:'']\<rparr>))
   \<and> (\<exists>v1. animate v = Inr v1 \<and> frames v1 = Suc (frames v))
   \<and> (\<exists>v1. runFrames ts v = Inr v1 \<and> frames v1 = frames v + length ts)"
proof (intro conjI impI)
  show "\<exists>v1. updateCursorPosition v audioTime = Inr v1"
    by (rule updateCursorPosition_total)
next
  assume "osmdRef v = Some osmd \<and> isLoaded v \<and> cursorRef v = Some cursor \<and> GraphicSheet osmd = Some gs
        \<and> positionCursor v cursor gs (findCurrentMeasure (anchors v) audioTime) = (v', Some err)"
  then show "updateCursorPosition v audioTime
            = Inr (v'\<lparr>console := console v' @ [''Error positioning cursor:'']\<rparr>)"
    using updateCursorPosition_caught by blast
next
  assume h: "osmdRef v = Some osmd \<and> isLoaded v \<and> cursorRef v = Some cursor \<and> GraphicSheet osmd = Some gs
        \<and> 0 \<le> located_measure (findCurrentMeasure (anchors v) audioTime) - 1
        \<and> located_measure (findCurrentMeasure (anchors v) audioTime) - 1 < int (length (MeasureList gs))
        \<and> MeasureList gs ! nat (located_measure (findCurrentMeasure (anchors v) audioTime) - 1)
            = Some measureStaves
        \<and> measureStaves \<noteq> []
        \<and> cursorExtent measureStaves initialExtent MAX_VALUE = Inl err"
  then have "positionCursor v cursor gs (findCurrentMeasure (anchors v) audioTime) = (v, Some err)"
    using positionCursor_absent_staff by blast
  with h show "updateCursorPosition v audioTime
            = Inr (v\<lparr>console := console v @ [''Error positioning cursor:'']\<rparr>)"
    using updateCursorPosition_caught by blast
next
  show "\<exists>v1. animate v = Inr v1 \<and> frames v1 = Suc (frames v)"
    by (rule animate_frames)
next
  show "\<exists>v1. runFrames ts v = Inr v1 \<and> frames v1 = frames v + length ts"
    by (rule runFrames_frames)
qed

theorem updateCursorPosition_exception_caught_witness:
  "updateCursorPosition example_record 0
     = Inr (example_record
        \<lparr>cursorRef := Some (example_cursor\<lparr>style_height := 40, style_display := ''block'',
              backgroundColor := ''rgba(239, 68, 68, 0.6)'', boxShadow := ''0 0 10px rgba(239, 68, 68, 0.4)''\<rparr>),
         lastMeasureIndexRef := 0,
         elements := applyColor 11 ''#000000'' (elements example_record),
         console := [''Error positioning cursor:'']\<rparr>)
   \<and> updateCursorPosition example_absent 0
     = Inr (example_absent\<lparr>console := [''Error positioning cursor:'']\<rparr>)
   \<and> (\<exists>v1. runFrames [0, 1] example_record = Inr v1 \<and> frames v1 = 2)"
proof -
  have env: "osmdRef example_record = Some \<lparr>GraphicSheet = Some example_sheet\<rparr>"
    "isLoaded example_record" "cursorRef example_record = Some example_cursor"
    "GraphicSheet \<lparr>GraphicSheet = Some example_sheet\<rparr> = Some example_sheet"
    by (simp_all add: example_record_def example_viewer_def)
  from updateCursorPosition_exception_caught
    [where v = example_record and audioTime = 0
       and osmd = "\<lparr>GraphicSheet = Some example_sheet\<rparr>"
       and cursor = example_cursor and gs = example_sheet]
    env example_record_caught
  have a: "updateCursorPosition example_record 0
     = Inr (example_record
        \<lparr>cursorRef := Some (example_cursor\<lparr>style_height := 40, style_display := ''block'',
              backgroundColor := ''rgba(239, 68, 68, 0.6)'', boxShadow := ''0 0 10px rgba(239, 68, 68, 0.4)''\<rparr>),
         lastMeasureIndexRef := 0,
         elements := applyColor 11 ''#000000'' (elements example_record),
         console := [''Error positioning cursor:'']\<rparr>)"
    by (simp add: example_record_def example_viewer_def)
  have env2: "osmdRef example_absent
       = Some \<lparr>GraphicSheet = Some \<lparr>MeasureList = [Some [None]], UnitInPixels = Some 10\<rparr>\<rparr>"
    "isLoaded example_absent" "cursorRef example_absent = Some example_cursor"
    by (simp_all add: example_absent_def example_record_def example_viewer_def)
  from updateCursorPosition_exception_caught
    [where v = example_absent and audioTime = 0
       and osmd = "\<lparr>GraphicSheet = Some \<lparr>MeasureList = [Some [None]], UnitInPixels = Some 10\<rparr>\<rparr>"
       and cursor = example_cursor
       and gs = "\<lparr>MeasureList = [Some [None]], UnitInPixels = Some 10\<rparr>"
       and measureStaves = "[None]" and err = TypeError]
    env2 example_absent_throws
  have b: "updateCursorPosition example_absent 0
     = Inr (example_absent\<lparr>console := [''Error positioning cursor:'']\<rparr>)"
    by (simp add: example_absent_def example_record_def example_viewer_def)
  have "frames example_record = 0"
    by (simp add: example_record_def example_viewer_def)
  with updateCursorPosition_exception_caught
    [where v = example_record and ts = "[0, 1]",
      THEN conjunct2, THEN conjunct2, THEN conjunct2, THEN conjunct2]
  have c: "\<exists>v1. runFrames [0, 1] example_record = Inr v1 \<and> frames v1 = 2"
    by (simp del: runFrames.simps add: numeral_2_eq_2)
  from a b c show ?thesis by blast
qed

subsection \<open>Per-note highlighting\<close>

text \<open>
  Highlighting in playback mode.  After the highlighting loop a note of
  the current measure with a finite timestamp \<open>ts\<close> has the highlight colour exactly when
  \<open>ts - 0.04 \<le> hp \<le> ts + 0.01\<close>, and under reveal mode opacity \<open>0\<close> exactly when
  \<open>hp < ts - 0.04\<close> (all notes that share its element having its timestamp); the loop runs
  in playback mode with \<open>hp\<close> the highlight progress.  The viewer with three reveal modes
  resets every note in recording mode.
\<close>

lemma highlight_playback:
  assumes "mode v = PLAYBACK" and "map_of (noteMap v) measureNo = Some ns"
    and "n \<in> set ns" and "element n = Some e" and "timestamp n = Finite ts"
    and "\<forall>n'\<in>set ns. element n' = Some e \<longrightarrow> timestamp n' = Finite ts"
  shows "elements (fst (renderFrame v cursor gs measureNo p ext mn)) e =
     \<lparr>opacity =
        (if revealMode v
            \<and> highlightProgress ext (visualStartX measureNo (unitInPixels gs) ext mn) p < ts - 4 / 100
         then ''0'' else ''1''),
      color =
        (if ts - 4 / 100 \<le> highlightProgress ext (visualStartX measureNo (unitInPixels gs) ext mn) p
            \<and> highlightProgress ext (visualStartX measureNo (unitInPixels gs) ext mn) p \<le> ts + 1 / 100
         then ''#10B981'' else ''#000000'')\<rparr>"
proof -
  from renderFrame_playback_elements [OF assms(1,2)] obtain st0 where
    "elements (fst (renderFrame v cursor gs measureNo p ext mn))
     = fold (highlightNote (revealMode v)
          (highlightProgress ext (visualStartX measureNo (unitInPixels gs) ext mn) p)) ns st0"
    by blast
  with highlightNotes_note [OF assms(3-6)] show ?thesis by simp
qed

text \<open>
  Claim C6 fails on the code in recording mode, by a slip of the code.  On the example
  (recording mode, two notes in the current measure, both green and hidden before the
  frame) the frame colours the first note black and raises: the first note stays hidden,
  the second note stays green and hidden, and the error is logged.
\<close>

theorem recording_reset_stops_at_first_note:
  "mode example_record = RECORD
   \<and> map_of (noteMap example_record) 1
       = Some [example_note 1 (1 / 4) 11, example_note 1 (3 / 4) 12]
   \<and> (case updateCursorPosition example_record 0 of
         Inl e \<Rightarrow> False
       | Inr v1 \<Rightarrow>
           elements v1 11 = \<lparr>opacity = ''0'', color = ''#000000''\<rparr>
           \<and> elements v1 12 = \<lparr>opacity = ''0'', color = ''#10B981''\<rparr>
           \<and> console v1 = [''Error positioning cursor:''])"
  by (simp add: example_record_frame)
     (simp add: example_record_def example_viewer_def applyColor_def)

subsection \<open>The geometry mapper on malformed layout data\<close>

text \<open>
  Claim C7 fails on the code, which misses the two cases.  A measure whose staff measure
  has no bounding shape makes \<open>calculateNoteMap\<close> raise a \<open>TypeError\<close>, which nothing
  catches: the pass does not complete, and the entries of the well-formed first measure
  never reach the note map.  A measure of width zero is not skipped: its note is entered
  with the timestamp \<open>0 / 0\<close>, which is \<open>NaN\<close>.
\<close>

theorem calculateNoteMap_malformed_layout:
  "calculateNoteMap example_dom example_no_shape = Inl TypeError
   \<and> (case calculateNoteMap example_dom example_zero_width of
         Inl e \<Rightarrow> False
       | Inr v1 \<Rightarrow>
           noteMap v1 =
             [(1, [\<lparr>note_id = ''a'', measureIndex = 1, timestamp = Finite (1 / 2), element = Some 11\<rparr>]),
              (2, [\<lparr>note_id = ''b'', measureIndex = 2, timestamp = NaN, element = Some 21\<rparr>])])"
  by (simp add: calculateNoteMap_def example_no_shape_def example_zero_width_def
      example_viewer_def example_dom_def example_entry_def example_box_def unitInPixels_def
      mapEntry_def mapNote_def js_div_def Let_def)

end
